theory Spec2Isabelle
  imports Complex_Main "HOL-Library.AList"
begin

section \<open>Python values\<close>

text \<open>
  The values that cells, fields and statement parameters take. \<open>Fin q\<close> is the float
  that the rational \<open>q\<close> denotes; rounding to binary64 and overflow are not modelled, and
  no property below depends on them. \<open>FloatV NaN\<close> is the float nan, which pandas also
  uses as its missing marker (NaN and, after formatting, NaT); \<open>isna\<close> is \<open>pd.isna\<close>.
  An exception is a value of \<open>exn\<close>, and a computation that may raise returns a sum,
  \<open>Inl\<close> the exception.
\<close>

datatype pyfloat = Fin rat | PosInf | NegInf | NaN

datatype val = NoneV | IntV int | FloatV pyfloat | StrV string

datatype exn = ValueError | TypeError | OverflowError | AttributeError | KeyError
  | FetchError | OperationalError | ProgrammingError | DatabaseError

definition isna :: "val \<Rightarrow> bool" where
  "isna v = (v = NoneV \<or> v = FloatV NaN)"

definition is_number :: "val \<Rightarrow> bool" where
  "is_number v = (case v of IntV _ \<Rightarrow> True | FloatV f \<Rightarrow> f \<noteq> NaN | _ \<Rightarrow> False)"

definition bnd :: "'e + 'a \<Rightarrow> ('a \<Rightarrow> 'e + 'b) \<Rightarrow> 'e + 'b" where
  "bnd m f = (case m of Inl e \<Rightarrow> Inl e | Inr a \<Rightarrow> f a)"

section \<open>The builtins int and float on text\<close>

text \<open>
  \<open>int\<close> and \<open>float\<close> on ASCII text: surrounding whitespace is stripped, a sign may
  lead, and digits may be grouped by single underscores; \<open>float\<close> also accepts a
  fraction, an exponent, and the words inf, infinity and nan in any case. \<open>None\<close> stands
  for the \<open>ValueError\<close> that the builtin raises on any other text.
\<close>

definition is_space :: "char \<Rightarrow> bool" where
  "is_space c = (let n = (of_char c :: nat) in (9 \<le> n \<and> n \<le> 13) \<or> (28 \<le> n \<and> n \<le> 32))"

definition strip_ws :: "string \<Rightarrow> string" where
  "strip_ws s = rev (dropWhile is_space (rev (dropWhile is_space s)))"

definition is_digit :: "char \<Rightarrow> bool" where
  "is_digit c = (let n = (of_char c :: nat) in 48 \<le> n \<and> n \<le> 57)"

definition digit_val :: "char \<Rightarrow> nat" where
  "digit_val c = of_char c - 48"

fun digitpart :: "string \<Rightarrow> nat list option" where
  "digitpart [] = None"
| "digitpart [c] = (if is_digit c then Some [digit_val c] else None)"
| "digitpart (c # d # cs) =
     (if \<not> is_digit c then None
      else if d = CHR ''_'' then map_option ((#) (digit_val c)) (digitpart cs)
      else map_option ((#) (digit_val c)) (digitpart (d # cs)))"

definition decimal :: "nat list \<Rightarrow> nat" where
  "decimal ds = fold (\<lambda>d n. 10 * n + d) ds 0"

definition split_sign :: "string \<Rightarrow> bool \<times> string" where
  "split_sign s = (case s of
       c # cs \<Rightarrow> if c = CHR ''-'' then (True, cs) else if c = CHR ''+'' then (False, cs) else (False, s)
     | [] \<Rightarrow> (False, s))"

definition py_int :: "string \<Rightarrow> int option" where
  "py_int s = (case split_sign (strip_ws s) of (neg, body) \<Rightarrow>
     map_option (\<lambda>ds. if neg then - int (decimal ds) else int (decimal ds)) (digitpart body))"

definition lower :: "char \<Rightarrow> char" where
  "lower c = (let n = (of_char c :: nat) in if 65 \<le> n \<and> n \<le> 90 then char_of (n + 32) else c)"

definition scale10 :: "rat \<Rightarrow> int \<Rightarrow> rat" where
  "scale10 m e = (if 0 \<le> e then m * 10 ^ nat e else m / 10 ^ nat (- e))"

definition mantissa :: "string \<Rightarrow> rat option" where
  "mantissa m =
     (let ip = takeWhile (\<lambda>c. c \<noteq> CHR ''.'') m; rest = dropWhile (\<lambda>c. c \<noteq> CHR ''.'') m
      in case rest of
           [] \<Rightarrow> map_option (\<lambda>ds. of_nat (decimal ds)) (digitpart ip)
         | _ # fp \<Rightarrow>
             if ip = [] \<and> fp = [] then None
             else (case (if ip = [] then Some [] else digitpart ip,
                         if fp = [] then Some [] else digitpart fp) of
                     (Some ids, Some fds) \<Rightarrow>
                        Some (scale10 (of_nat (decimal (ids @ fds))) (- int (length fds)))
                   | _ \<Rightarrow> None))"

definition exponent :: "string \<Rightarrow> int option" where
  "exponent s = (case split_sign s of (neg, body) \<Rightarrow>
     map_option (\<lambda>ds. if neg then - int (decimal ds) else int (decimal ds)) (digitpart body))"

definition is_e :: "char \<Rightarrow> bool" where
  "is_e c = (c = CHR ''e'' \<or> c = CHR ''E'')"

definition finite_literal :: "string \<Rightarrow> rat option" where
  "finite_literal body =
     (let m = takeWhile (\<lambda>c. \<not> is_e c) body; rest = dropWhile (\<lambda>c. \<not> is_e c) body
      in case rest of
           [] \<Rightarrow> mantissa m
         | _ # ex \<Rightarrow> (case (mantissa m, exponent ex) of
                        (Some q, Some e) \<Rightarrow> Some (scale10 q e)
                      | _ \<Rightarrow> None))"

definition py_float :: "string \<Rightarrow> pyfloat option" where
  "py_float s = (case split_sign (strip_ws s) of (neg, body) \<Rightarrow>
     (let w = map lower body in
      if w = ''inf'' \<or> w = ''infinity'' then Some (if neg then NegInf else PosInf)
      else if w = ''nan'' then Some NaN
      else map_option (\<lambda>q. Fin (if neg then - q else q)) (finite_literal body)))"


definition float_of :: "val \<Rightarrow> exn + pyfloat" where
  "float_of v = (case v of
       StrV s \<Rightarrow> (case py_float s of Some f \<Rightarrow> Inr f | None \<Rightarrow> Inl ValueError)
     | IntV n \<Rightarrow> Inr (Fin (of_int n))
     | FloatV f \<Rightarrow> Inr f
     | NoneV \<Rightarrow> Inl TypeError)"

definition trunc :: "rat \<Rightarrow> int" where
  "trunc q = (if 0 \<le> q then \<lfloor>q\<rfloor> else \<lceil>q\<rceil>)"

definition int_of :: "val \<Rightarrow> exn + int" where
  "int_of v = (case v of
       StrV s \<Rightarrow> (case py_int s of Some n \<Rightarrow> Inr n | None \<Rightarrow> Inl ValueError)
     | IntV n \<Rightarrow> Inr n
     | FloatV (Fin q) \<Rightarrow> Inr (trunc q)
     | FloatV NaN \<Rightarrow> Inl ValueError
     | FloatV _ \<Rightarrow> Inl OverflowError
     | NoneV \<Rightarrow> Inl TypeError)"

text \<open>
  The items of a tuple are evaluated from left to right, and the first one that raises
  ends the evaluation.
\<close>

fun collect :: "('e + 'a) list \<Rightarrow> 'e + 'a list" where
  "collect [] = Inr []"
| "collect (Inl e # _) = Inl e"
| "collect (Inr a # ms) = (case collect ms of Inl e \<Rightarrow> Inl e | Inr as \<Rightarrow> Inr (a # as))"

section \<open>The relational store\<close>

text \<open>
  A table is read through its conflict key: the value of the key column gives the row,
  a row gives every column a value, \<open>NoneV\<close> standing for SQL NULL. An upsert statement
  is read as its column lists (the columns of INSERT INTO, the column of ON CONFLICT and
  the columns assigned from EXCLUDED in DO UPDATE SET) together with the two places where
  its text can fail to be SQL: the parenthesised groups that follow VALUES, each given by
  the number of its placeholders and written one after the other with no comma between
  them, and whether the SET list ends in a comma. The store accepts the text when there is
  one group and no such comma, and raises a syntax error otherwise, whatever the
  parameters. The parameters of a tuple are bound to the INSERT columns by position.
  \<open>replace_values n\<close> is \<open>.replace("(%s)", "(%s)" * n)\<close>: every group that is
  exactly \<open>(%s)\<close> becomes \<open>n\<close> such groups.
\<close>

type_synonym dbrow = "string \<Rightarrow> val"
type_synonym table = "val \<Rightarrow> dbrow option"

record stmt =
  into_cols :: "string list"
  values_groups :: "nat list"
  conflict_key :: string
  set_cols :: "string list"
  trailing_comma :: bool

definition parses :: "stmt \<Rightarrow> bool" where
  "parses q = (length (values_groups q) = 1 \<and> \<not> trailing_comma q)"

definition replace_values :: "nat \<Rightarrow> stmt \<Rightarrow> stmt" where
  "replace_values n q =
     q\<lparr>values_groups := concat (map (\<lambda>g. if g = 1 then replicate n 1 else [g]) (values_groups q))\<rparr>"

definition bind_params :: "string list \<Rightarrow> val list \<Rightarrow> dbrow" where
  "bind_params cols t = (\<lambda>c. case map_of (zip cols t) c of None \<Rightarrow> NoneV | Some v \<Rightarrow> v)"

definition upsert :: "stmt \<Rightarrow> val list \<Rightarrow> table \<Rightarrow> table" where
  "upsert q t tbl =
     (let new = bind_params (into_cols q) t; k = new (conflict_key q)
      in case tbl k of
           None \<Rightarrow> tbl(k \<mapsto> new)
         | Some old \<Rightarrow> tbl(k \<mapsto> (\<lambda>c. if c \<in> set (set_cols q) then new c else old c)))"

definition execute :: "(val list \<Rightarrow> bool) \<Rightarrow> stmt \<Rightarrow> val list \<Rightarrow> table \<Rightarrow> exn + table" where
  "execute rej q t tbl =
     (if \<not> parses q then Inl ProgrammingError
      else if rej t then Inl DatabaseError
      else Inr (upsert q t tbl))"

fun executemany :: "(val list \<Rightarrow> bool) \<Rightarrow> stmt \<Rightarrow> val list list \<Rightarrow> table \<Rightarrow> exn + table" where
  "executemany rej q [] tbl = Inr tbl"
| "executemany rej q (t # ts) tbl = bnd (execute rej q t tbl) (executemany rej q ts)"

definition gpt_cols :: "string list" where
  "gpt_cols = [''gpt_inferred_strategy'', ''gpt_strategy_confidence'', ''gpt_trade_evaluation'',
     ''gpt_alternative_action'', ''was_gpt_recommendation_followed'', ''gpt_impact_alignment'']"

definition UPSERT_SQL :: stmt where
  "UPSERT_SQL = \<lparr>
     into_cols = [''ticket'', ''account_id'', ''symbol'', ''trade_type'', ''entry_price'',
       ''exit_price'', ''timestamp'', ''lot_size'', ''pnl'', ''net_profit'', ''mae'', ''mfe'',
       ''pips'', ''tp'', ''sl'', ''trade_duration_hours''] @ gpt_cols,
     values_groups = [22],
     conflict_key = ''ticket'',
     set_cols = [''account_id'', ''symbol'', ''trade_type'', ''entry_price'', ''exit_price'',
       ''timestamp'', ''lot_size'', ''pnl'', ''net_profit'', ''mae'', ''mfe'', ''pips'', ''tp'',
       ''sl'', ''trade_duration_hours''],
     trailing_comma = False \<rparr>"

definition rss_gpt_cols :: "string list" where
  "rss_gpt_cols = [''gpt_recommendation_issued'', ''gpt_recommendation_content'',
     ''gpt_recommendation_accuracy'', ''gpt_suggestion_score'', ''trade_deviation_reasoning'']"

definition TRADES_UPSERT :: stmt where
  "TRADES_UPSERT = \<lparr>
     into_cols = [''account_id'', ''account_url'', ''rss_url'', ''trade_win'', ''total_return'',
       ''trades_per_day'', ''account_balance'', ''account_equity'', ''account_floating_profit'',
       ''account_closed_profit'', ''account_free_margin'', ''ticket'', ''action'', ''lots'',
       ''symbol'', ''open_price'', ''close_price'', ''open_time'', ''close_time'', ''profit'',
       ''swap'', ''commission'', ''total_profit'', ''take_profit'', ''stop_loss'',
       ''magic_number''] @ rss_gpt_cols,
     values_groups = [1],
     conflict_key = ''ticket'',
     set_cols = [''account_id'', ''account_url'', ''rss_url'', ''trade_win'', ''total_return'',
       ''trades_per_day'', ''account_balance'', ''account_equity'', ''account_floating_profit'',
       ''account_closed_profit'', ''account_free_margin'', ''action'', ''lots'', ''symbol'',
       ''open_price'', ''close_price'', ''open_time'', ''close_time'', ''profit'', ''swap'',
       ''commission'', ''total_profit'', ''take_profit'', ''stop_loss'', ''magic_number''],
     trailing_comma = True \<rparr>"

definition META_UPSERT :: stmt where
  "META_UPSERT = \<lparr>
     into_cols = [''account_id'', ''account_url'', ''rss_url'', ''trade_win'', ''total_return'',
       ''trades_per_day'', ''strategy_inferred'', ''gpt_comments''],
     values_groups = [6],
     conflict_key = ''account_id'',
     set_cols = [''account_url'', ''rss_url'', ''trade_win'', ''total_return'',
       ''trades_per_day''],
     trailing_comma = False \<rparr>"

section \<open>Library functions taken as parameters, and the world a unit runs in\<close>

text \<open>
  \<open>md5\<close> is \<open>hashlib.md5(...).hexdigest()\<close>, \<open>fmt\<close> the formatting of a value
  inside an f-string, \<open>to_datetime\<close> is \<open>pd.to_datetime(..., errors="coerce")\<close>
  followed by \<open>strftime\<close> on one cell (\<open>None\<close> where the date does not parse),
  \<open>to_datetime_raises\<close> gives the exception that this conversion raises on the cells
  of a column, if it raises on them, and
  \<open>strptime\<close> is the parse and ISO formatting inside \<open>normalize_timestamp\<close>.
  \<open>connects\<close> tells whether \<open>get_db_conn\<close> returns a connection, \<open>rejects\<close> which
  parameter tuples the store refuses, and \<open>BATCH_SIZE\<close> is the configured batch size.
  A world holds the committed tables, the log, the numbers of connections opened and
  closed, and the tuples handed to \<open>executemany\<close> for the trade statements, in order.
\<close>

record env =
  md5 :: "string \<Rightarrow> string"
  fmt :: "val \<Rightarrow> string"
  to_datetime :: "val \<Rightarrow> string option"
  to_datetime_raises :: "val list \<Rightarrow> exn option"
  strptime :: "string \<Rightarrow> string option"
  connects :: bool
  rejects :: "val list \<Rightarrow> bool"
  BATCH_SIZE :: int

datatype logline =
    Starting string | Skipping string | Finished string nat | ErrorProcessing string exn
  | Upserted val nat | ErrorFor val exn

datatype level = INFO | WARNING | ERROR

fun level_of :: "logline \<Rightarrow> level" where
  "level_of (Starting _) = INFO"
| "level_of (Skipping _) = WARNING"
| "level_of (Finished _ _) = INFO"
| "level_of (ErrorProcessing _ _) = ERROR"
| "level_of (Upserted _ _) = INFO"
| "level_of (ErrorFor _ _) = ERROR"

record world =
  historical_trades :: table
  rss_trades :: table
  account_metadata :: table
  logged :: "logline list"
  acquired :: nat
  released :: nat
  sent :: "val list list"

definition logging :: "logline \<Rightarrow> world \<Rightarrow> world" where
  "logging l w = w\<lparr>logged := logged w @ [l]\<rparr>"


section \<open>The CSV pipeline (gcp_csv.py)\<close>

text \<open>
  A data frame is its column labels and its rows, a row pairing labels with cells. The
  frame a unit starts from is what \<open>pd.read_csv(BytesIO(raw), skiprows=1)\<close> gave, or
  the exception that the download or the parse raised. The renaming can give two columns
  the same label: selecting such a label yields a frame, not a column, on which
  \<open>pd.to_datetime\<close> raises \<open>ValueError\<close> and \<open>pd.to_numeric\<close> raises
  \<open>TypeError\<close>. \<open>pd.to_numeric(..., errors="coerce")\<close> converts a column: each
  text is parsed as by \<open>int\<close> and \<open>float\<close>, what does not parse becomes the missing
  marker, and the integers of a column that holds a float become floats. A frame has no
  method \<open>setdefault\<close>: the attribute lookup falls back to the column labels and raises
  \<open>AttributeError\<close>, unless a column carries that label, which is then found and is not
  callable. The deduplication adds a column \<open>__hash\<close> and drops it again; here the
  hash is computed beside the frame.
\<close>

type_synonym row = "(string \<times> val) list"

record frame =
  columns :: "string list"
  rows :: "row list"

record blob =
  name :: string
  read_csv :: "exn + frame"


definition getitem :: "row \<Rightarrow> string \<Rightarrow> exn + val" where
  "getitem r c = (case map_of r c of None \<Rightarrow> Inl KeyError | Some v \<Rightarrow> Inr v)"

definition get :: "row \<Rightarrow> string \<Rightarrow> val" where
  "get r c = (case map_of r c of None \<Rightarrow> NoneV | Some v \<Rightarrow> v)"

definition set_column :: "string \<Rightarrow> val \<Rightarrow> frame \<Rightarrow> frame" where
  "set_column c v df = df\<lparr>
     columns := (if c \<in> set (columns df) then columns df else columns df @ [c]),
     rows := map (AList.update c v) (rows df)\<rparr>"

definition setdefault :: "string \<Rightarrow> val \<Rightarrow> frame \<Rightarrow> exn + frame" where
  "setdefault c v df =
     Inl (if ''setdefault'' \<in> set (columns df) then TypeError else AttributeError)"

definition column :: "string \<Rightarrow> frame \<Rightarrow> val list" where
  "column c df = map (\<lambda>r. get r c) (rows df)"

definition assign_column :: "string \<Rightarrow> val list \<Rightarrow> frame \<Rightarrow> frame" where
  "assign_column c vs df =
     df\<lparr>rows := map (\<lambda>(r, v). AList.update c v r) (zip (rows df) vs)\<rparr>"

definition basename :: "string \<Rightarrow> string" where
  "basename p = rev (takeWhile (\<lambda>c. c \<noteq> CHR ''/'') (rev p))"

fun before :: "string \<Rightarrow> string \<Rightarrow> string" where
  "before sep [] = []"
| "before sep (c # cs) = (if take (length sep) (c # cs) = sep then [] else c # before sep cs)"

definition account_id_of :: "string \<Rightarrow> string" where
  "account_id_of nm = before ''.csv'' (basename nm)"

definition rename_table :: "(string \<times> string) list" where
  "rename_table = [
     (''Symbol'', ''symbol''),
     (''Buy/sell'', ''trade_type''),
     (''Open price'', ''entry_price''),
     (''Close price'', ''exit_price''),
     (''Lots'', ''lot_size''),
     (''Profit'', ''pnl''),
     (''Net profit'', ''net_profit''),
     (''MAE'', ''mae''),
     (''MFE'', ''mfe''),
     (''Open time'', ''timestamp''),
     (''Pips'', ''pips''),
     (''T/P'', ''tp''),
     (''S/L'', ''sl''),
     (''Trade duration (hours)'', ''trade_duration_hours'')]"

definition ren :: "string \<Rightarrow> string" where
  "ren c = (case map_of rename_table c of None \<Rightarrow> c | Some c' \<Rightarrow> c')"

definition rename_columns :: "frame \<Rightarrow> frame" where
  "rename_columns df = df\<lparr>
     columns := map ren (columns df),
     rows := map (map (\<lambda>(c, v). (ren c, v))) (rows df)\<rparr>"

definition strftime :: "env \<Rightarrow> val \<Rightarrow> val" where
  "strftime E v = (case to_datetime E v of None \<Rightarrow> FloatV NaN | Some s \<Rightarrow> StrV s)"

definition clean :: "env \<Rightarrow> string \<Rightarrow> frame \<Rightarrow> exn + frame" where
  "clean E nm df0 =
     (let df1 = set_column ''account_id'' (StrV (account_id_of nm)) df0;
          df2 = rename_columns df1
      in if ''timestamp'' \<in> set (columns df2)
         then (if 1 < count_list (columns df2) ''timestamp'' then Inl ValueError
               else (case to_datetime_raises E (column ''timestamp'' df2) of
                       Some e \<Rightarrow> Inl e
                     | None \<Rightarrow>
                         Inr (assign_column ''timestamp''
                                (map (strftime E) (column ''timestamp'' df2)) df2)))
         else Inr df2)"

definition required :: "string list" where
  "required = [''timestamp'', ''symbol'', ''trade_type'', ''entry_price'', ''exit_price'',
     ''lot_size'', ''pnl'']"

definition numeric_cols :: "string list" where
  "numeric_cols = [''entry_price'', ''exit_price'', ''pnl'', ''net_profit'', ''mae'', ''mfe'',
     ''pips'', ''tp'', ''sl'', ''trade_duration_hours'']"

definition to_numeric_cell :: "val \<Rightarrow> val" where
  "to_numeric_cell v = (case v of
       StrV s \<Rightarrow> (case py_int s of Some n \<Rightarrow> IntV n
                 | None \<Rightarrow> (case py_float s of Some f \<Rightarrow> FloatV f | None \<Rightarrow> FloatV NaN))
     | NoneV \<Rightarrow> FloatV NaN
     | _ \<Rightarrow> v)"

definition is_float :: "val \<Rightarrow> bool" where
  "is_float v = (case v of FloatV _ \<Rightarrow> True | _ \<Rightarrow> False)"

definition as_float :: "val \<Rightarrow> val" where
  "as_float v = (case v of IntV n \<Rightarrow> FloatV (Fin (of_int n)) | _ \<Rightarrow> v)"

definition to_numeric :: "val list \<Rightarrow> val list" where
  "to_numeric vs =
     (let ws = map to_numeric_cell vs
      in if \<exists>w \<in> set ws. is_float w then map as_float ws else ws)"

fun coerce_cols :: "string list \<Rightarrow> frame \<Rightarrow> exn + frame" where
  "coerce_cols [] df = Inr df"
| "coerce_cols (c # cs) df =
     (if c \<in> set (columns df)
      then (if 1 < count_list (columns df) c then Inl TypeError
            else coerce_cols cs (assign_column c (to_numeric (column c df)) df))
      else coerce_cols cs df)"

definition coerce_numeric :: "frame \<Rightarrow> exn + frame" where
  "coerce_numeric df = coerce_cols numeric_cols df"

fun setdefaults :: "string list \<Rightarrow> frame \<Rightarrow> exn + frame" where
  "setdefaults [] df = Inr df"
| "setdefaults (c # cs) df = bnd (setdefault c NoneV df) (setdefaults cs)"

definition placeholders :: "frame \<Rightarrow> exn + frame" where
  "placeholders df = setdefaults gpt_cols df"

definition row_hash :: "env \<Rightarrow> row \<Rightarrow> string" where
  "row_hash E r = md5 E (fmt E (get r ''account_id'') @ fmt E (get r ''Ticket'')
                          @ fmt E (get r ''timestamp''))"

fun drop_duplicates :: "('a \<Rightarrow> 'h) \<Rightarrow> 'h list \<Rightarrow> 'a list \<Rightarrow> 'a list" where
  "drop_duplicates key seen [] = []"
| "drop_duplicates key seen (r # rs) =
     (if key r \<in> set seen then drop_duplicates key seen rs
      else r # drop_duplicates key (key r # seen) rs)"

definition dedupe :: "env \<Rightarrow> frame \<Rightarrow> frame" where
  "dedupe E df =
     (if ''Ticket'' \<in> set (columns df)
      then df\<lparr>rows := drop_duplicates (row_hash E) [] (rows df)\<rparr>
      else df)"

definition tuple_of :: "row \<Rightarrow> exn + val list" where
  "tuple_of r = collect (
       [bnd (getitem r ''Ticket'') (\<lambda>v. bnd (int_of v) (\<lambda>n. Inr (IntV n)))]
     @ map (getitem r) [''account_id'', ''symbol'', ''trade_type'', ''entry_price'',
         ''exit_price'', ''timestamp'', ''lot_size'', ''pnl'']
     @ map (\<lambda>c. Inr (get r c)) [''net_profit'', ''mae'', ''mfe'', ''pips'', ''tp'', ''sl'',
         ''trade_duration_hours'']
     @ map (getitem r) gpt_cols)"

definition build_vals :: "row list \<Rightarrow> exn + val list list" where
  "build_vals rs = collect (map tuple_of rs)"

definition submit :: "env \<Rightarrow> string \<Rightarrow> val list list \<Rightarrow> world \<Rightarrow> world" where
  "submit E nm vals w =
     (let w2 = w\<lparr>sent := sent w @ vals\<rparr>
      in case executemany (rejects E) UPSERT_SQL vals (historical_trades w2) of
           Inl e \<Rightarrow> logging (ErrorProcessing nm e) w2
         | Inr tbl \<Rightarrow>
             logging (Finished nm (length vals))
               (w2\<lparr>historical_trades := tbl, released := released w2 + 1\<rparr>))"

definition write_rows :: "env \<Rightarrow> string \<Rightarrow> row list \<Rightarrow> world \<Rightarrow> world" where
  "write_rows E nm rs w =
     (if \<not> connects E then logging (ErrorProcessing nm OperationalError) w
      else (let w1 = w\<lparr>acquired := acquired w + 1\<rparr>
            in case build_vals rs of
                 Inl e \<Rightarrow> logging (ErrorProcessing nm e) w1
               | Inr vals \<Rightarrow> submit E nm vals w1))"

definition process_blob :: "env \<Rightarrow> blob \<Rightarrow> world \<Rightarrow> world" where
  "process_blob E b w =
     (let w0 = logging (Starting (name b)) w
      in case read_csv b of
           Inl e \<Rightarrow> logging (ErrorProcessing (name b) e) w0
         | Inr df0 \<Rightarrow>
             (case clean E (name b) df0 of
                Inl e \<Rightarrow> logging (ErrorProcessing (name b) e) w0
              | Inr df \<Rightarrow>
                  if \<not> (\<forall>col \<in> set required. col \<in> set (columns df))
                  then logging (Skipping (name b)) w0
                  else (case bnd (coerce_numeric df) placeholders of
                          Inl e \<Rightarrow> logging (ErrorProcessing (name b) e) w0
                        | Inr df' \<Rightarrow> write_rows E (name b) (rows (dedupe E df')) w0)))"

definition main_csv :: "env \<Rightarrow> blob list \<Rightarrow> world \<Rightarrow> world" where
  "main_csv E blobs w = fold (process_blob E) blobs w"


section \<open>The RSS pipeline (gcp_rss.py)\<close>

text \<open>
  A feed entry maps the names of the fields it carries to their text; reading a field
  the entry does not carry raises \<open>AttributeError\<close>, which is what \<open>hasattr\<close>
  tests. A unit is a roster row together with the entries that \<open>feedparser.parse\<close>
  returns for its feed. The trade statement is sent as
  \<open>TRADES_UPSERT.replace("(%s)", "(%s)" * 31)\<close>.
\<close>

type_synonym entry = "(string \<times> string) list"

record account =
  roster :: row
  feed :: "entry list"

definition hasattr :: "entry \<Rightarrow> string \<Rightarrow> bool" where
  "hasattr item k = (map_of item k \<noteq> None)"

definition attr :: "entry \<Rightarrow> string \<Rightarrow> exn + string" where
  "attr item k = (case map_of item k of None \<Rightarrow> Inl AttributeError | Some s \<Rightarrow> Inr s)"

definition strip_pct :: "string \<Rightarrow> string" where
  "strip_pct s = rev (dropWhile (\<lambda>c. c = CHR ''%'') (rev (dropWhile (\<lambda>c. c = CHR ''%'') s)))"

definition div100 :: "pyfloat \<Rightarrow> pyfloat" where
  "div100 f = (case f of Fin q \<Rightarrow> Fin (q / 100) | _ \<Rightarrow> f)"

definition to_pct :: "val \<Rightarrow> exn + val" where
  "to_pct x =
     (if isna x \<or> x = StrV ''-'' then Inr NoneV
      else case x of
             StrV s \<Rightarrow> bnd (float_of (StrV (strip_pct s))) (\<lambda>f. Inr (FloatV (div100 f)))
           | _ \<Rightarrow> bnd (float_of x) (\<lambda>f. Inr (FloatV f)))"

definition header :: "row \<Rightarrow> exn + val list" where
  "header r = collect [getitem r ''username'', getitem r ''account_url'', getitem r ''rss_url'',
     to_pct (get r ''trade win''), to_pct (get r ''Total return''),
     to_pct (get r ''Trades per day'')]"

definition normalize_timestamp :: "env \<Rightarrow> string \<Rightarrow> val" where
  "normalize_timestamp E ts_str = (case strptime E ts_str of None \<Rightarrow> NoneV | Some t \<Rightarrow> StrV t)"

definition to_float :: "string \<Rightarrow> exn + val" where
  "to_float s = bnd (float_of (StrV s)) (\<lambda>f. Inr (FloatV f))"

definition to_int :: "string \<Rightarrow> exn + val" where
  "to_int s = bnd (int_of (StrV s)) (\<lambda>n. Inr (IntV n))"

definition float_if_set :: "entry \<Rightarrow> string \<Rightarrow> exn + val" where
  "float_if_set item k = bnd (attr item k) (\<lambda>s. if s \<noteq> [] then to_float s else Inr NoneV)"

definition float_unless_zero :: "entry \<Rightarrow> string \<Rightarrow> exn + val" where
  "float_unless_zero item k = bnd (attr item k) (\<lambda>s. if s \<noteq> ''0'' then to_float s else Inr NoneV)"

definition int_if_set :: "entry \<Rightarrow> string \<Rightarrow> exn + val" where
  "int_if_set item k = bnd (attr item k) (\<lambda>s. if s \<noteq> [] then to_int s else Inr NoneV)"

definition text_of :: "entry \<Rightarrow> string \<Rightarrow> exn + val" where
  "text_of item k = bnd (attr item k) (\<lambda>s. Inr (StrV s))"

definition account_summary :: "entry \<Rightarrow> exn + val list" where
  "account_summary item = collect (map (\<lambda>k. bnd (attr item k) to_float)
     [''account_balance'', ''account_equity'', ''account_floatingprofit'',
      ''account_closedprofit'', ''account_freemargin''])"

definition position_cols :: "string list" where
  "position_cols = [''ticket'', ''action'', ''lots'', ''symbol'', ''open_price'', ''close_price'',
     ''open_time'', ''close_time'', ''profit'', ''swap'', ''commission'', ''total_profit'',
     ''take_profit'', ''stop_loss'', ''magic_number'']"

definition position :: "env \<Rightarrow> entry \<Rightarrow> exn + val list" where
  "position E item = collect [
     bnd (attr item ''position_ticket'') to_int,
     text_of item ''position_action'',
     float_if_set item ''position_lots'',
     text_of item ''position_symbol'',
     float_if_set item ''position_openprice'',
     float_if_set item ''position_closeprice'',
     bnd (attr item ''position_opentime'') (\<lambda>s. Inr (normalize_timestamp E s)),
     bnd (attr item ''position_closetime'')
       (\<lambda>s. if s \<noteq> ''Thu 1 Jan 1970 00:00:00'' then Inr (normalize_timestamp E s) else Inr NoneV),
     float_if_set item ''position_profit'',
     float_if_set item ''position_swap'',
     float_if_set item ''position_commission'',
     float_if_set item ''position_totalprofit'',
     float_unless_zero item ''position_tp'',
     float_unless_zero item ''position_sl'',
     int_if_set item ''position_magicnumber'']"

definition read_summary :: "entry \<Rightarrow> val list \<Rightarrow> exn + val list" where
  "read_summary item sm =
     (if hasattr item ''account_balance'' then account_summary item else Inr sm)"

definition trade_tuple :: "val list \<Rightarrow> val list \<Rightarrow> val list \<Rightarrow> val list" where
  "trade_tuple ctx sm p = ctx @ sm @ p @ replicate 5 NoneV"

record loop =
  summary :: "val list"
  trades :: "val list list"
  txn :: table
  handed :: "val list list"

definition flush :: "env \<Rightarrow> loop \<Rightarrow> exn option \<times> loop" where
  "flush E L =
     (let L' = L\<lparr>handed := handed L @ trades L\<rparr>
      in case executemany (rejects E) (replace_values 31 TRADES_UPSERT) (trades L) (txn L) of
           Inl e \<Rightarrow> (Some e, L')
         | Inr t \<Rightarrow> (None, L'\<lparr>txn := t\<rparr>))"

definition step :: "env \<Rightarrow> val list \<Rightarrow> entry \<Rightarrow> loop \<Rightarrow> exn option \<times> loop" where
  "step E ctx item L =
     (case read_summary item (summary L) of
        Inl e \<Rightarrow> (Some e, L)
      | Inr sm \<Rightarrow>
          (let L1 = L\<lparr>summary := sm\<rparr>
           in if \<not> hasattr item ''position_ticket'' then (None, L1)
              else (case position E item of
                      Inl e \<Rightarrow> (Some e, L1)
                    | Inr p \<Rightarrow>
                        (let L2 = L1\<lparr>trades := trades L1 @ [trade_tuple ctx sm p]\<rparr>
                         in if BATCH_SIZE E \<le> int (length (trades L2))
                            then (case flush E L2 of
                                    (Some e, L3) \<Rightarrow> (Some e, L3)
                                  | (None, L3) \<Rightarrow> (None, L3\<lparr>trades := []\<rparr>))
                            else (None, L2)))))"

fun walk :: "env \<Rightarrow> val list \<Rightarrow> entry list \<Rightarrow> loop \<Rightarrow> exn option \<times> loop" where
  "walk E ctx [] L = (None, L)"
| "walk E ctx (item # items) L =
     (case step E ctx item L of
        (Some e, L') \<Rightarrow> (Some e, L')
      | (None, L') \<Rightarrow> walk E ctx items L')"

definition final_batch :: "env \<Rightarrow> exn option \<times> loop \<Rightarrow> exn option \<times> loop" where
  "final_batch E xl =
     (case xl of
        (Some e, L) \<Rightarrow> (Some e, L)
      | (None, L) \<Rightarrow> if trades L \<noteq> [] then flush E L else (None, L))"

definition start :: "table \<Rightarrow> loop" where
  "start tbl = \<lparr>summary = replicate 5 NoneV, trades = [], txn = tbl, handed = []\<rparr>"

definition run_account :: "env \<Rightarrow> val \<Rightarrow> val list \<Rightarrow> entry list \<Rightarrow> world \<Rightarrow> world" where
  "run_account E sa ctx items w =
     (if \<not> connects E then logging (ErrorFor sa OperationalError) w
      else (let w1 = w\<lparr>acquired := acquired w + 1\<rparr>
               in case execute (rejects E) META_UPSERT ctx (account_metadata w1) of
                    Inl e \<Rightarrow> logging (ErrorFor sa e) w1
                  | Inr meta \<Rightarrow>
                      (case final_batch E (walk E ctx items (start (rss_trades w1))) of
                         (Some e, L) \<Rightarrow>
                           logging (ErrorFor sa e) (w1\<lparr>sent := sent w1 @ handed L\<rparr>)
                       | (None, L) \<Rightarrow>
                           logging (Upserted sa (length (trades L)))
                             (w1\<lparr>sent := sent w1 @ handed L,
                                 rss_trades := txn L,
                                 account_metadata := meta,
                                 released := released w1 + 1\<rparr>))))"

text \<open>
  \<open>process_account\<close> returns the exception that leaves the function, if one does, and
  the world it leaves behind. The roster fields are read and the percent fields parsed
  before the \<open>try\<close> block is entered.
\<close>

definition process_account :: "env \<Rightarrow> account \<Rightarrow> world \<Rightarrow> exn option \<times> world" where
  "process_account E a w =
     (case header (roster a) of
        Inl e \<Rightarrow> (Some e, w)
      | Inr ctx \<Rightarrow> (None, run_account E (get (roster a) ''username'') ctx (feed a) w))"

text \<open>
  The pool stores what a call raises in its future, and \<open>main\<close> never asks a future
  for its result: the units are run here one after the other.
\<close>

definition main_rss :: "env \<Rightarrow> account list \<Rightarrow> world \<Rightarrow> world" where
  "main_rss E accounts w = fold (\<lambda>a w'. snd (process_account E a w')) accounts w"

section \<open>Writing record by record\<close>



definition written :: "exn option \<times> loop \<Rightarrow> exn + table" where
  "written xl = (case xl of (Some e, L) \<Rightarrow> Inl e | (None, L) \<Rightarrow> Inr (txn L))"

section \<open>Numbers, nulls and the fields of a position entry\<close>

text \<open>
  A value is a number or a null when it is an integer, a float, \<open>None\<close> or the
  missing marker: anything but text. \<open>numeric_cols\<close> above is the list of columns the
  CSV pipeline coerces; \<open>rss_numeric_cols\<close> lists the numeric columns of an RSS trade
  tuple. The position fields are listed with the column each one fills and grouped by the
  test that guards their conversion: \<open>x if x else None\<close> for \<open>if_set_fields\<close>,
  \<open>x != "0"\<close> for \<open>zero_unset_fields\<close>; \<open>float_fields\<close> are those converted by
  \<open>float\<close>.
\<close>

definition num_or_null :: "val \<Rightarrow> bool" where
  "num_or_null v = (is_number v \<or> isna v)"




definition good_summary :: "val list \<Rightarrow> bool" where
  "good_summary sm = (length sm = 5 \<and> (\<forall>v \<in> set sm. num_or_null v))"

definition if_set_fields :: "(string \<times> string) list" where
  "if_set_fields = [(''position_lots'', ''lots''), (''position_openprice'', ''open_price''),
     (''position_closeprice'', ''close_price''), (''position_profit'', ''profit''),
     (''position_swap'', ''swap''), (''position_commission'', ''commission''),
     (''position_totalprofit'', ''total_profit''), (''position_magicnumber'', ''magic_number'')]"

definition zero_unset_fields :: "(string \<times> string) list" where
  "zero_unset_fields = [(''position_tp'', ''take_profit''), (''position_sl'', ''stop_loss'')]"


section \<open>Example inputs\<close>

text \<open>
  Concrete units, entries, frames and tables on which the theorems are evaluated. In
  \<open>env0\<close> the library parameters are fixed to functions that agree with the libraries on
  the few values the examples use.
\<close>

definition env0 :: env where
  "env0 = \<lparr>
     md5 = (\<lambda>s. s),
     fmt = (\<lambda>v. case v of StrV s \<Rightarrow> s | IntV n \<Rightarrow> (if n = 55 then ''55'' else ''56'') | _ \<Rightarrow> ''nan''),
     to_datetime = (\<lambda>v. if v = StrV ''2024-01-02 03:04:05'' then Some ''2024-01-02T03:04:05'' else None),
     to_datetime_raises = (\<lambda>vs. None),
     strptime = (\<lambda>s. if s = ''Thu 21 Mar 2019 09:00:11'' then Some ''2019-03-21T09:00:11+00:00''
                     else None),
     connects = True,
     rejects = (\<lambda>t. False),
     BATCH_SIZE = 100\<rparr>"

definition world0 :: world where
  "world0 = \<lparr>historical_trades = (\<lambda>k. None), rss_trades = (\<lambda>k. None),
     account_metadata = (\<lambda>k. None), logged = [], acquired = 0, released = 0, sent = []\<rparr>"

definition roster0 :: row where
  "roster0 = [(''username'', StrV ''acct1''), (''account_url'', StrV ''https://example.org/a''),
     (''rss_url'', StrV ''https://example.org/a.rss''), (''trade win'', StrV ''55%''),
     (''Total return'', StrV ''-''), (''Trades per day'', FloatV (Fin 2))]"

definition entry0 :: entry where
  "entry0 = [(''position_ticket'', ''7''), (''position_action'', ''buy''),
     (''position_lots'', ''''), (''position_symbol'', ''EURUSD''),
     (''position_openprice'', ''0''), (''position_closeprice'', ''''),
     (''position_opentime'', ''Thu 21 Mar 2019 09:00:11''),
     (''position_closetime'', ''Thu 1 Jan 1970 00:00:00''),
     (''position_profit'', ''''), (''position_swap'', ''''), (''position_commission'', ''''),
     (''position_totalprofit'', ''''), (''position_tp'', ''0''), (''position_sl'', ''0''),
     (''position_magicnumber'', '''')]"

definition frame0 :: frame where
  "frame0 = \<lparr>
     columns = [''Ticket'', ''Symbol'', ''Buy/sell'', ''Open price'', ''Close price'', ''Lots'',
       ''Profit'', ''Open time''],
     rows = [
       [(''Ticket'', IntV 55), (''Symbol'', StrV ''EURUSD''), (''Buy/sell'', StrV ''buy''),
        (''Open price'', FloatV (Fin (11 / 10))), (''Close price'', StrV ''pending''),
        (''Lots'', IntV 1), (''Profit'', IntV 200), (''Open time'', StrV ''2024-01-02 03:04:05'')],
       [(''Ticket'', IntV 55), (''Symbol'', StrV ''EURUSD''), (''Buy/sell'', StrV ''buy''),
        (''Open price'', FloatV (Fin (11 / 10))), (''Close price'', StrV ''pending''),
        (''Lots'', IntV 1), (''Profit'', IntV 200), (''Open time'', StrV ''2024-01-02 03:04:05'')],
       [(''Ticket'', IntV 56), (''Symbol'', StrV ''EURUSD''), (''Buy/sell'', StrV ''sell''),
        (''Open price'', FloatV (Fin (6 / 5))), (''Close price'', StrV ''1.2''),
        (''Lots'', IntV 2), (''Profit'', IntV (- 3)), (''Open time'', StrV ''2024-01-02 03:04:05'')]]\<rparr>"

definition old_row0 :: dbrow where
  "old_row0 = (\<lambda>c. if c = ''ticket'' then IntV 55 else if c = ''gpt_inferred_strategy'' then StrV ''scalping''
      else if c = ''pnl'' then IntV 10 else NoneV)"
definition table0 :: table where "table0 = (\<lambda>k. if k = IntV 55 then Some old_row0 else None)"
definition tuple0 :: "val list" where
  "tuple0 = [IntV 55, StrV ''1001'', StrV ''EURUSD'', StrV ''buy'', FloatV (Fin (11 / 10)),
     FloatV (Fin (28 / 25)), StrV ''2024-01-02T03:04:05'', IntV 1, IntV 200, NoneV, NoneV, NoneV,
     NoneV, NoneV, NoneV, NoneV, NoneV, NoneV, NoneV, NoneV, NoneV, NoneV]"

definition frame1 :: frame where
  "frame1 = \<lparr>
     columns = [''Ticket'', ''symbol'', ''trade_type'', ''entry_price'', ''exit_price'', ''lot_size'',
       ''pnl'', ''timestamp'', ''account_id''],
     rows = [
       [(''Ticket'', IntV 55), (''symbol'', StrV ''EURUSD''), (''trade_type'', StrV ''buy''),
        (''entry_price'', FloatV (Fin (11 / 10))), (''exit_price'', StrV ''pending''),
        (''lot_size'', IntV 1), (''pnl'', IntV 200), (''timestamp'', StrV ''2024-01-02T03:04:05''),
        (''account_id'', StrV ''1001'')],
       [(''Ticket'', IntV 55), (''symbol'', StrV ''EURUSD''), (''trade_type'', StrV ''buy''),
        (''entry_price'', FloatV (Fin (11 / 10))), (''exit_price'', StrV ''pending''),
        (''lot_size'', IntV 1), (''pnl'', IntV 200), (''timestamp'', StrV ''2024-01-02T03:04:05''),
        (''account_id'', StrV ''1001'')],
       [(''Ticket'', IntV 56), (''symbol'', StrV ''EURUSD''), (''trade_type'', StrV ''sell''),
        (''entry_price'', FloatV (Fin (6 / 5))), (''exit_price'', StrV ''1.2''),
        (''lot_size'', IntV 2), (''pnl'', IntV (- 3)), (''timestamp'', StrV ''2024-01-02T03:04:05''),
        (''account_id'', StrV ''1001'')]]\<rparr>"


definition blob0 :: blob where
  "blob0 = \<lparr>name = ''testcsvs/1001.csv'', read_csv = Inr frame0\<rparr>"

definition frame_no_profit :: frame where
  "frame_no_profit = \<lparr>
     columns = [''Ticket'', ''Symbol'', ''Buy/sell'', ''Open price'', ''Close price'', ''Lots'',
       ''Open time''],
     rows = [
       [(''Ticket'', IntV 60), (''Symbol'', StrV ''EURUSD''), (''Buy/sell'', StrV ''buy''),
        (''Open price'', FloatV (Fin (11 / 10))), (''Close price'', FloatV (Fin (28 / 25))),
        (''Lots'', IntV 1), (''Open time'', StrV ''2024-01-02 03:04:05'')]]\<rparr>"

definition blob_no_profit :: blob where
  "blob_no_profit = \<lparr>name = ''testcsvs/1002.csv'', read_csv = Inr frame_no_profit\<rparr>"

definition ctx0 :: "val list" where
  "ctx0 = [StrV ''acct1'', StrV ''https://example.org/a'', StrV ''https://example.org/a.rss'',
     FloatV (Fin (11 / 20)), NoneV, FloatV (Fin 2)]"

definition position0 :: "val list" where
  "position0 = [IntV 7, StrV ''buy'', NoneV, StrV ''EURUSD'', FloatV (Fin 0), NoneV,
     StrV ''2019-03-21T09:00:11+00:00'', NoneV, NoneV, NoneV, NoneV, NoneV, NoneV, NoneV, NoneV]"

definition entry1 :: entry where
  "entry1 = [(''position_ticket'', ''8''), (''position_action'', ''sell''),
     (''position_lots'', ''0.10''), (''position_symbol'', ''GBPUSD''),
     (''position_openprice'', ''1.25''), (''position_closeprice'', ''1.5''),
     (''position_opentime'', ''Thu 21 Mar 2019 09:00:11''),
     (''position_closetime'', ''Thu 21 Mar 2019 09:00:11''),
     (''position_profit'', ''-2.5''), (''position_swap'', ''0''), (''position_commission'', ''0''),
     (''position_totalprofit'', ''-2.5''), (''position_tp'', ''1.1''), (''position_sl'', ''0''),
     (''position_magicnumber'', ''42'')]"

definition position1 :: "val list" where
  "position1 = [IntV 8, StrV ''sell'', FloatV (Fin (1 / 10)), StrV ''GBPUSD'', FloatV (Fin (5 / 4)),
     FloatV (Fin (3 / 2)), StrV ''2019-03-21T09:00:11+00:00'', StrV ''2019-03-21T09:00:11+00:00'',
     FloatV (Fin (- (5 / 2))), FloatV (Fin 0), FloatV (Fin 0), FloatV (Fin (- (5 / 2))),
     FloatV (Fin (11 / 10)), NoneV, IntV 42]"

definition summary_entry :: entry where
  "summary_entry = [(''account_balance'', ''100''), (''account_equity'', ''101.5''),
     (''account_floatingprofit'', ''1.5''), (''account_closedprofit'', ''0''),
     (''account_freemargin'', ''90'')]"

definition summary0 :: "val list" where
  "summary0 = [FloatV (Fin 100), FloatV (Fin (203 / 2)), FloatV (Fin (3 / 2)), FloatV (Fin 0),
     FloatV (Fin 90)]"


definition entry_no_tp :: entry where
  "entry_no_tp = [(''position_ticket'', ''7''), (''position_action'', ''buy''),
     (''position_lots'', ''0.10''), (''position_symbol'', ''EURUSD''),
     (''position_openprice'', ''1.25''), (''position_closeprice'', ''''),
     (''position_opentime'', ''Thu 21 Mar 2019 09:00:11''),
     (''position_closetime'', ''Thu 1 Jan 1970 00:00:00''),
     (''position_profit'', ''''), (''position_swap'', ''''), (''position_commission'', ''''),
     (''position_totalprofit'', ''''), (''position_sl'', ''0''),
     (''position_magicnumber'', '''')]"


definition entry_bad_ticket :: entry where
  "entry_bad_ticket = [(''position_ticket'', ''12x''), (''position_action'', ''buy''),
     (''position_lots'', ''0.10''), (''position_symbol'', ''EURUSD''),
     (''position_openprice'', ''1.25''), (''position_closeprice'', ''''),
     (''position_opentime'', ''Thu 21 Mar 2019 09:00:11''),
     (''position_closetime'', ''Thu 1 Jan 1970 00:00:00''),
     (''position_profit'', ''''), (''position_swap'', ''''), (''position_commission'', ''''),
     (''position_totalprofit'', ''''), (''position_tp'', ''0''), (''position_sl'', ''0''),
     (''position_magicnumber'', '''')]"

definition roster_bad_pct :: row where
  "roster_bad_pct = [(''username'', StrV ''acct2''), (''account_url'', StrV ''https://example.org/b''),
     (''rss_url'', StrV ''https://example.org/b.rss''), (''trade win'', StrV ''abc''),
     (''Total return'', StrV ''12%''), (''Trades per day'', FloatV (Fin 2))]"

definition account0 :: account where
  "account0 = \<lparr>roster = roster0, feed = [summary_entry, entry0, entry1]\<rparr>"

definition csv_tuple0 :: "val list" where
  "csv_tuple0 = [IntV 55, StrV ''1001'', StrV ''EURUSD'', StrV ''buy'', FloatV (Fin (11 / 10)),
     FloatV NaN, StrV ''2024-01-02T03:04:05'', IntV 1, IntV 200, NoneV, NoneV, NoneV, NoneV,
     NoneV, NoneV, NoneV, NoneV, NoneV, NoneV, NoneV, NoneV, NoneV]"

definition csv_tuple1 :: "val list" where
  "csv_tuple1 = [IntV 56, StrV ''1001'', StrV ''EURUSD'', StrV ''sell'', FloatV (Fin (6 / 5)),
     FloatV (Fin (6 / 5)), StrV ''2024-01-02T03:04:05'', IntV 2, IntV (- 3), NoneV, NoneV, NoneV,
     NoneV, NoneV, NoneV, NoneV, NoneV, NoneV, NoneV, NoneV, NoneV, NoneV]"

definition ready_rows :: "row list" where
  "ready_rows = [
     [(''Ticket'', IntV 55), (''symbol'', StrV ''EURUSD''), (''trade_type'', StrV ''buy''),
      (''entry_price'', FloatV (Fin (11 / 10))), (''exit_price'', FloatV NaN),
      (''lot_size'', IntV 1), (''pnl'', IntV 200), (''timestamp'', StrV ''2024-01-02T03:04:05''),
      (''account_id'', StrV ''1001''),
      (''gpt_inferred_strategy'', NoneV), (''gpt_strategy_confidence'', NoneV),
      (''gpt_trade_evaluation'', NoneV), (''gpt_alternative_action'', NoneV),
      (''was_gpt_recommendation_followed'', NoneV), (''gpt_impact_alignment'', NoneV)],
     [(''Ticket'', IntV 56), (''symbol'', StrV ''EURUSD''), (''trade_type'', StrV ''sell''),
      (''entry_price'', FloatV (Fin (6 / 5))), (''exit_price'', FloatV (Fin (6 / 5))),
      (''lot_size'', IntV 2), (''pnl'', IntV (- 3)), (''timestamp'', StrV ''2024-01-02T03:04:05''),
      (''account_id'', StrV ''1001''),
      (''gpt_inferred_strategy'', NoneV), (''gpt_strategy_confidence'', NoneV),
      (''gpt_trade_evaluation'', NoneV), (''gpt_alternative_action'', NoneV),
      (''was_gpt_recommendation_followed'', NoneV), (''gpt_impact_alignment'', NoneV)]]"

definition row_bad_ticket :: row where
  "row_bad_ticket = [(''Ticket'', StrV ''abc''), (''symbol'', StrV ''EURUSD''),
     (''trade_type'', StrV ''buy''), (''entry_price'', FloatV (Fin (11 / 10))),
     (''exit_price'', FloatV (Fin (28 / 25))), (''lot_size'', IntV 1), (''pnl'', IntV 200),
     (''timestamp'', StrV ''2024-01-02T03:04:05''), (''account_id'', StrV ''1003''),
     (''gpt_inferred_strategy'', NoneV), (''gpt_strategy_confidence'', NoneV),
     (''gpt_trade_evaluation'', NoneV), (''gpt_alternative_action'', NoneV),
     (''was_gpt_recommendation_followed'', NoneV), (''gpt_impact_alignment'', NoneV)]"

definition frame_two_timestamps :: frame where
  "frame_two_timestamps = \<lparr>
     columns = [''Ticket'', ''Symbol'', ''Buy/sell'', ''Open price'', ''Close price'', ''Lots'',
       ''Open time'', ''timestamp''],
     rows = [
       [(''Ticket'', IntV 61), (''Symbol'', StrV ''EURUSD''), (''Buy/sell'', StrV ''buy''),
        (''Open price'', FloatV (Fin (11 / 10))), (''Close price'', FloatV (Fin (28 / 25))),
        (''Lots'', IntV 1), (''Open time'', StrV ''2024-01-02 03:04:05''),
        (''timestamp'', StrV ''2024-01-02 03:04:05'')]]\<rparr>"

definition blob_two_timestamps :: blob where
  "blob_two_timestamps = \<lparr>name = ''testcsvs/1004.csv'', read_csv = Inr frame_two_timestamps\<rparr>"

definition account_quiet :: account where
  "account_quiet = \<lparr>roster = roster0, feed = [summary_entry]\<rparr>"

definition stored_row7 :: dbrow where
  "stored_row7 = (\<lambda>c. if c = ''ticket'' then IntV 7
      else if c = ''open_price'' then FloatV (Fin (5 / 4))
      else if c = ''gpt_recommendation_content'' then StrV ''hold''
      else NoneV)"

definition world_stored :: world where
  "world_stored = world0\<lparr>rss_trades := (\<lambda>k. if k = IntV 7 then Some stored_row7 else None)\<rparr>"

section \<open>Statements and the store\<close>

lemma parses_UPSERT_SQL: "parses UPSERT_SQL"
  by (simp add: parses_def UPSERT_SQL_def)

lemma parses_META_UPSERT: "parses META_UPSERT"
  by (simp add: parses_def META_UPSERT_def)

lemma trades_statement_as_sent:
  "values_groups (replace_values 31 TRADES_UPSERT) = replicate 31 1"
  "trailing_comma (replace_values 31 TRADES_UPSERT)"
  "into_cols (replace_values 31 TRADES_UPSERT) = into_cols TRADES_UPSERT"
  by (simp_all add: replace_values_def TRADES_UPSERT_def)

lemma trades_statement_malformed: "\<not> parses (replace_values n TRADES_UPSERT)"
  by (simp add: parses_def replace_values_def TRADES_UPSERT_def)

lemma executemany_malformed:
  "\<not> parses q \<Longrightarrow> executemany rej q (t # ts) tbl = Inl ProgrammingError"
  by (simp add: execute_def bnd_def)

lemma execute_META:
  "execute rej META_UPSERT t tbl = (if rej t then Inl DatabaseError else Inr (upsert META_UPSERT t tbl))"
  by (simp add: execute_def parses_META_UPSERT)

lemma upsert_keeps:
  "tbl k = Some old \<Longrightarrow> c \<notin> set (set_cols q) \<Longrightarrow> \<exists>r. upsert q t tbl k = Some r \<and> r c = old c"
  by (auto simp: upsert_def Let_def split: option.splits)

lemma upsert_twice: "upsert q t (upsert q t tbl) = upsert q t tbl"
  by (auto simp: upsert_def Let_def fun_eq_iff split: option.splits)

lemma upsert_hit:
  "tbl (bind_params (into_cols q) t (conflict_key q)) = Some old \<Longrightarrow>
   upsert q t tbl (bind_params (into_cols q) t (conflict_key q)) =
     Some (\<lambda>c. if c \<in> set (set_cols q) then bind_params (into_cols q) t c else old c)"
  by (simp add: upsert_def Let_def)

lemma mutable_csv:
  "set (into_cols UPSERT_SQL) - {''ticket''} - set gpt_cols = set (set_cols UPSERT_SQL)"
  by (auto simp add: UPSERT_SQL_def gpt_cols_def)

lemma key_csv: "conflict_key UPSERT_SQL = ''ticket''"
  by (simp add: UPSERT_SQL_def)

text \<open>
  The statement of the CSV pipeline, where the store executes it: a stored row with the
  ticket of the tuple takes the incoming value in every column but the ticket and the
  enrichment columns, and keeps its enrichment columns; executing it a second time
  changes nothing.
\<close>

lemma csv_statement_on_conflict:
  assumes "\<not> rej t" and "tbl (bind_params (into_cols UPSERT_SQL) t ''ticket'') = Some old"
  shows "\<exists>tbl' r. execute rej UPSERT_SQL t tbl = Inr tbl'
           \<and> tbl' (bind_params (into_cols UPSERT_SQL) t ''ticket'') = Some r
           \<and> (\<forall>c \<in> set (into_cols UPSERT_SQL) - {''ticket''} - set gpt_cols.
                 r c = bind_params (into_cols UPSERT_SQL) t c)
           \<and> (\<forall>c \<in> set gpt_cols. r c = old c)
           \<and> execute rej UPSERT_SQL t tbl' = Inr tbl'"
proof -
  from mutable_csv have d: "\<forall>c\<in>set gpt_cols. c \<notin> set (set_cols UPSERT_SQL)" by blast
  have e: "\<And>tbl. execute rej UPSERT_SQL t tbl = Inr (upsert UPSERT_SQL t tbl)"
    using assms(1) by (simp add: execute_def parses_UPSERT_SQL)
  from upsert_hit[of tbl UPSERT_SQL t old] assms(2) d
  have "\<exists>r. upsert UPSERT_SQL t tbl (bind_params (into_cols UPSERT_SQL) t ''ticket'') = Some r
           \<and> (\<forall>c \<in> set (into_cols UPSERT_SQL) - {''ticket''} - set gpt_cols.
                 r c = bind_params (into_cols UPSERT_SQL) t c)
           \<and> (\<forall>c \<in> set gpt_cols. r c = old c)"
    unfolding key_csv mutable_csv by simp
  then show ?thesis by (simp add: e upsert_twice)
qed

lemma csv_statement_on_conflict_example:
  "\<exists>tbl' r. execute (\<lambda>t. False) UPSERT_SQL tuple0 table0 = Inr tbl'
      \<and> tbl' (IntV 55) = Some r
      \<and> r ''pnl'' = IntV 200
      \<and> r ''gpt_inferred_strategy'' = StrV ''scalping''"
proof -
  have k: "bind_params (into_cols UPSERT_SQL) tuple0 ''ticket'' = IntV 55"
    "bind_params (into_cols UPSERT_SQL) tuple0 ''pnl'' = IntV 200"
    by (simp_all add: bind_params_def UPSERT_SQL_def tuple0_def)
  have hit: "table0 (bind_params (into_cols UPSERT_SQL) tuple0 ''ticket'') = Some old_row0"
    by (simp add: k table0_def)
  have c: "''pnl'' \<in> set (into_cols UPSERT_SQL) - {''ticket''} - set gpt_cols"
    "''gpt_inferred_strategy'' \<in> set gpt_cols"
    by (simp_all add: UPSERT_SQL_def gpt_cols_def)
  have o: "old_row0 ''gpt_inferred_strategy'' = StrV ''scalping''" by (simp add: old_row0_def)
  from csv_statement_on_conflict[of "\<lambda>t. False" tuple0 table0 old_row0, OF _ hit]
  obtain tbl' r where "execute (\<lambda>t. False) UPSERT_SQL tuple0 table0 = Inr tbl'"
    and "tbl' (IntV 55) = Some r"
    and m: "\<forall>c \<in> set (into_cols UPSERT_SQL) - {''ticket''} - set gpt_cols.
                 r c = bind_params (into_cols UPSERT_SQL) tuple0 c"
    and g: "\<forall>c \<in> set gpt_cols. r c = old_row0 c"
    unfolding k by auto
  moreover from m c(1) k(2) have "r ''pnl'' = IntV 200" by auto
  moreover from g c(2) o have "r ''gpt_inferred_strategy'' = StrV ''scalping''" by auto
  ultimately show ?thesis by blast
qed


section \<open>Deduplication\<close>

lemma drop_duplicates_nths:
  "drop_duplicates key seen rs =
     nths rs {i. i < length rs \<and> key (rs ! i) \<notin> set seen \<and> (\<forall>j<i. key (rs ! j) \<noteq> key (rs ! i))}"
proof (induction rs arbitrary: seen)
  case Nil
  then show ?case by simp
next
  case (Cons r rs)
  show ?case
  proof (cases "key r \<in> set seen")
    case True
    have "{j. Suc j \<in> {i. i < length (r # rs) \<and> key ((r # rs) ! i) \<notin> set seen
              \<and> (\<forall>j<i. key ((r # rs) ! j) \<noteq> key ((r # rs) ! i))}}
        = {i. i < length rs \<and> key (rs ! i) \<notin> set seen \<and> (\<forall>j<i. key (rs ! j) \<noteq> key (rs ! i))}"
      using True by (auto simp: All_less_Suc2)
    with True Cons.IH[of seen] show ?thesis by (simp add: nths_Cons)
  next
    case False
    have "{j. Suc j \<in> {i. i < length (r # rs) \<and> key ((r # rs) ! i) \<notin> set seen
              \<and> (\<forall>j<i. key ((r # rs) ! j) \<noteq> key ((r # rs) ! i))}}
        = {i. i < length rs \<and> key (rs ! i) \<notin> set (key r # seen)
              \<and> (\<forall>j<i. key (rs ! j) \<noteq> key (rs ! i))}"
      by (auto simp: All_less_Suc2)
    with False Cons.IH[of "key r # seen"] show ?thesis by (simp add: nths_Cons)
  qed
qed

lemma drop_duplicates_id:
  "distinct (map key rs) \<Longrightarrow> key ` set rs \<inter> set seen = {} \<Longrightarrow> drop_duplicates key seen rs = rs"
  by (induction rs arbitrary: seen) auto

lemma drop_duplicates_keys:
  "key ` set (drop_duplicates key seen rs) = key ` set rs - set seen"
  by (induction rs arbitrary: seen) auto

lemma drop_duplicates_distinct: "distinct (map key (drop_duplicates key seen rs))"
  by (induction rs arbitrary: seen) (auto simp: drop_duplicates_keys)

lemma drop_duplicates_idem:
  "drop_duplicates key [] (drop_duplicates key [] rs) = drop_duplicates key [] rs"
  by (rule drop_duplicates_id) (simp_all add: drop_duplicates_distinct)

lemma columns_dedupe: "columns (dedupe E df) = columns df"
  by (simp add: dedupe_def)

lemma dedupe_idem: "dedupe E (dedupe E df) = dedupe E df"
  by (simp add: dedupe_def drop_duplicates_idem)

lemma dedupe_id: "distinct (map (row_hash E) (rows df)) \<Longrightarrow> dedupe E df = df"
  by (simp add: dedupe_def drop_duplicates_id)

text \<open>
  Claim C5. On a frame that has a Ticket column, deduplication hashes the account id, the
  ticket and the timestamp of each row and keeps exactly the rows whose hash no earlier
  row has, in their original order. It leaves a frame without repeated hashes as it is,
  and running it a second time changes nothing.
\<close>

theorem dedupe_keeps_first_occurrence:
  assumes "''Ticket'' \<in> set (columns df)"
  shows "rows (dedupe E df) =
           nths (rows df) {i. i < length (rows df)
                               \<and> (\<forall>j<i. row_hash E (rows df ! j) \<noteq> row_hash E (rows df ! i))}
       \<and> (\<forall>r r'. get r ''account_id'' = get r' ''account_id'' \<and> get r ''Ticket'' = get r' ''Ticket''
                   \<and> get r ''timestamp'' = get r' ''timestamp'' \<longrightarrow> row_hash E r = row_hash E r')
       \<and> (distinct (map (row_hash E) (rows df)) \<longrightarrow> dedupe E df = df)
       \<and> dedupe E (dedupe E df) = dedupe E df"
proof (intro conjI)
  show "rows (dedupe E df) =
           nths (rows df) {i. i < length (rows df)
                               \<and> (\<forall>j<i. row_hash E (rows df ! j) \<noteq> row_hash E (rows df ! i))}"
    using assms drop_duplicates_nths[of "row_hash E" "[]" "rows df"] by (simp add: dedupe_def)
  show "\<forall>r r'. get r ''account_id'' = get r' ''account_id'' \<and> get r ''Ticket'' = get r' ''Ticket''
                   \<and> get r ''timestamp'' = get r' ''timestamp'' \<longrightarrow> row_hash E r = row_hash E r'"
    by (simp add: row_hash_def)
  show "distinct (map (row_hash E) (rows df)) \<longrightarrow> dedupe E df = df"
    using dedupe_id by blast
  show "dedupe E (dedupe E df) = dedupe E df"
    by (rule dedupe_idem)
qed

theorem dedupe_keeps_first_occurrence_witness:
  "''Ticket'' \<in> set (columns frame1)
   \<and> map (row_hash env0) (rows frame1)
       = [''1001552024-01-02T03:04:05'', ''1001552024-01-02T03:04:05'', ''1001562024-01-02T03:04:05'']
   \<and> rows (dedupe env0 frame1) = [rows frame1 ! 0, rows frame1 ! 2]
   \<and> distinct (map (row_hash env0) (rows (dedupe env0 frame1)))
   \<and> dedupe env0 (dedupe env0 frame1) = dedupe env0 frame1"
proof -
  have t: "''Ticket'' \<in> set (columns frame1)"
    by code_simp
  have h: "map (row_hash env0) (rows frame1)
       = [''1001552024-01-02T03:04:05'', ''1001552024-01-02T03:04:05'', ''1001562024-01-02T03:04:05'']"
    by code_simp
  have r: "rows (dedupe env0 frame1) = [rows frame1 ! 0, rows frame1 ! 2]"
    by code_simp
  have d: "distinct (map (row_hash env0) (rows (dedupe env0 frame1)))"
    by code_simp
  from dedupe_keeps_first_occurrence[OF t, of env0] t h r d show ?thesis by blast
qed



section \<open>Evaluating the example inputs\<close>

lemmas parse_defs = py_float_def py_int_def split_sign_def strip_ws_def is_space_def lower_def
  finite_literal_def is_e_def mantissa_def exponent_def is_digit_def digit_val_def decimal_def
  scale10_def

lemmas rss_defs = position_def attr_def bnd_def text_of_def float_if_set_def
  float_unless_zero_def int_if_set_def to_float_def to_int_def float_of_def int_of_def
  normalize_timestamp_def read_summary_def hasattr_def account_summary_def trade_tuple_def

lemma position_entry0: "position env0 entry0 = Inr position0"
  by (simp add: rss_defs parse_defs env0_def entry0_def position0_def)

lemma position_entry1: "position env0 entry1 = Inr position1"
  by (simp add: rss_defs parse_defs env0_def entry1_def position1_def)

lemma summary_of_summary_entry: "account_summary summary_entry = Inr summary0"
  by (simp add: rss_defs parse_defs summary_entry_def summary0_def)

lemma header_roster0: "header roster0 = Inr ctx0"
  by (simp add: header_def roster0_def ctx0_def getitem_def get_def to_pct_def isna_def
        strip_pct_def div100_def float_of_def bnd_def parse_defs)


section \<open>Batching\<close>








lemma rss_trades_run_account:
  "rss_trades (run_account E sa ctx items w) =
     (if connects E \<and> \<not> rejects E ctx
      then (case written (final_batch E (walk E ctx items (start (rss_trades w)))) of
              Inl e \<Rightarrow> rss_trades w | Inr t \<Rightarrow> t)
      else rss_trades w)"
  by (simp add: run_account_def Let_def logging_def written_def execute_META
        split: prod.splits option.splits)







section \<open>Normalizing a position entry\<close>

lemma collect_map_Inr: "collect (map Inr vs) = Inr vs"
  by (induction vs) simp_all

lemma collect_InrD: "collect ms = Inr vs \<Longrightarrow> ms = map Inr vs"
proof (induction ms arbitrary: vs)
  case Nil
  then show ?case by simp
next
  case (Cons m ms)
  show ?case
  proof (cases m)
    case (Inl e)
    with Cons.prems show ?thesis by simp
  next
    case (Inr a)
    with Cons.prems obtain as where as: "collect ms = Inr as" "vs = a # as"
      by (auto split: sum.splits)
    with Cons.IH[of as] Inr show ?thesis by simp
  qed
qed

lemma collect_Inr_iff: "collect ms = Inr vs \<longleftrightarrow> ms = map Inr vs"
  using collect_InrD collect_map_Inr by blast

lemma collect_Inl: "Inl e \<in> set ms \<Longrightarrow> \<exists>e'. collect ms = Inl e'"
proof (induction ms)
  case Nil
  then show ?case by simp
next
  case (Cons m ms)
  then show ?case by (cases m) (auto split: sum.splits)
qed

lemma position_InrD:
  assumes "position E item = Inr p"
  shows "\<exists>v1 v2 v3 v4 v5 v6 v7 v8 v9 v10 v11 v12 v13 v14 v15.
     p = [v1, v2, v3, v4, v5, v6, v7, v8, v9, v10, v11, v12, v13, v14, v15]
     \<and> bnd (attr item ''position_ticket'') to_int = Inr v1
     \<and> text_of item ''position_action'' = Inr v2
     \<and> float_if_set item ''position_lots'' = Inr v3
     \<and> text_of item ''position_symbol'' = Inr v4
     \<and> float_if_set item ''position_openprice'' = Inr v5
     \<and> float_if_set item ''position_closeprice'' = Inr v6
     \<and> float_if_set item ''position_profit'' = Inr v9
     \<and> float_if_set item ''position_swap'' = Inr v10
     \<and> float_if_set item ''position_commission'' = Inr v11
     \<and> float_if_set item ''position_totalprofit'' = Inr v12
     \<and> float_unless_zero item ''position_tp'' = Inr v13
     \<and> float_unless_zero item ''position_sl'' = Inr v14
     \<and> int_if_set item ''position_magicnumber'' = Inr v15"
  using assms unfolding position_def collect_Inr_iff
  by (auto simp: Cons_eq_map_conv)

text \<open>
  The values a position entry normalizes to are named below by the columns of
  \<open>position_cols\<close>; these are the columns of the trade statement that the tuple built
  from them binds them to.
\<close>

lemma position_length: "position E item = Inr p \<Longrightarrow> length p = 15"
  using position_InrD by fastforce

lemma position_column_of_tuple:
  assumes "length ctx = 6" and "length sm = 5" and "length p = 15"
      and "map_of (zip position_cols p) c = Some v"
  shows "bind_params (into_cols TRADES_UPSERT) (trade_tuple ctx sm p) c = v"
proof -
  from assms(1) obtain c1 c2 c3 c4 c5 c6 where ctx: "ctx = [c1, c2, c3, c4, c5, c6]"
    by (auto simp: length_Suc_conv eval_nat_numeral)
  from assms(2) obtain s1 s2 s3 s4 s5 where sm: "sm = [s1, s2, s3, s4, s5]"
    by (auto simp: length_Suc_conv eval_nat_numeral)
  from assms(3) obtain v1 v2 v3 v4 v5 v6 v7 v8 v9 v10 v11 v12 v13 v14 v15 where
    p: "p = [v1, v2, v3, v4, v5, v6, v7, v8, v9, v10, v11, v12, v13, v14, v15]"
    by (auto simp: length_Suc_conv eval_nat_numeral)
  from assms(4) have "c \<in> set position_cols"
    unfolding p by (auto simp: position_cols_def split: if_splits)
  then have "c = ''ticket'' \<or> c = ''action'' \<or> c = ''lots'' \<or> c = ''symbol'' \<or> c = ''open_price''
     \<or> c = ''close_price'' \<or> c = ''open_time'' \<or> c = ''close_time'' \<or> c = ''profit'' \<or> c = ''swap''
     \<or> c = ''commission'' \<or> c = ''total_profit'' \<or> c = ''take_profit'' \<or> c = ''stop_loss''
     \<or> c = ''magic_number''"
    by (simp add: position_cols_def)
  then show ?thesis
    using assms(4) unfolding ctx sm p
    by (elim disjE)
       (simp_all add: position_cols_def bind_params_def TRADES_UPSERT_def rss_gpt_cols_def trade_tuple_def)
qed

lemma if_set_empty:
  "map_of item k = Some '''' \<Longrightarrow> float_if_set item k = Inr NoneV \<and> int_if_set item k = Inr NoneV"
  by (simp add: float_if_set_def int_if_set_def attr_def bnd_def)

text \<open>
  Claim C10. In the RSS normalizer an empty text in the lots, open price, close price,
  profit, swap, commission, total profit or magic number field makes that field's
  conversion return null without raising, and every record built from such an entry holds
  null in the matching column.
\<close>

theorem empty_text_normalizes_to_null:
  assumes "(k, c) \<in> set if_set_fields" and "map_of item k = Some ''''"
  shows "(if k = ''position_magicnumber'' then int_if_set item k else float_if_set item k) = Inr NoneV
       \<and> (\<forall>p. position E item = Inr p \<longrightarrow> map_of (zip position_cols p) c = Some NoneV)"
proof (intro conjI allI impI)
  show "(if k = ''position_magicnumber'' then int_if_set item k else float_if_set item k) = Inr NoneV"
    using if_set_empty[OF assms(2)] by auto
next
  fix p assume "position E item = Inr p"
  from position_InrD[OF this] if_set_empty[OF assms(2)] assms(1)
  show "map_of (zip position_cols p) c = Some NoneV"
    by (auto simp: if_set_fields_def position_cols_def)
qed

theorem empty_text_normalizes_to_null_witness:
  "(''position_lots'', ''lots'') \<in> set if_set_fields
   \<and> map_of entry0 ''position_lots'' = Some ''''
   \<and> float_if_set entry0 ''position_lots'' = Inr NoneV
   \<and> position env0 entry0 = Inr position0
   \<and> map_of (zip position_cols position0) ''lots'' = Some NoneV"
proof -
  have a: "(''position_lots'', ''lots'') \<in> set if_set_fields" by (simp add: if_set_fields_def)
  have b: "map_of entry0 ''position_lots'' = Some ''''" by (simp add: entry0_def)
  from empty_text_normalizes_to_null[OF a b, of env0] a b position_entry0
  show ?thesis by simp
qed


section \<open>Failing entries, and the zero rule of take-profit and stop-loss\<close>

lemma step_position_fails:
  "hasattr item ''position_ticket'' \<Longrightarrow> position E item = Inl e \<Longrightarrow>
   \<exists>e' L'. step E ctx item L = (Some e', L') \<and> handed L' = handed L"
  by (cases "read_summary item (summary L)") (simp_all add: step_def Let_def)

lemma walk_fails:
  "item \<in> set items \<Longrightarrow> hasattr item ''position_ticket'' \<Longrightarrow> position E item = Inl e \<Longrightarrow>
   \<exists>e' L'. walk E ctx items L = (Some e', L')"
proof (induction items arbitrary: L)
  case Nil
  then show ?case by simp
next
  case (Cons i items)
  show ?case
  proof (cases "step E ctx i L")
    case (Pair x L1)
    show ?thesis
    proof (cases x)
      case (Some e1)
      with Pair show ?thesis by simp
    next
      case None
      with Pair step_position_fails[of i E e ctx L] Cons.prems have "item \<in> set items"
        by auto
      from Cons.IH[OF this Cons.prems(2,3), of L1] Pair None show ?thesis by simp
    qed
  qed
qed

lemma run_account_walk_fails:
  assumes "walk E ctx items (start (rss_trades w)) = (Some e, L)" and "connects E" and "\<not> rejects E ctx"
  shows "run_account E sa ctx items w
           = logging (ErrorFor sa e) (w\<lparr>acquired := acquired w + 1, sent := sent w @ handed L\<rparr>)"
  using assms by (simp add: run_account_def Let_def final_batch_def execute_META)

lemma unit_fails:
  assumes "header (roster a) = Inr ctx" and "connects E" and "\<not> rejects E ctx"
      and "item \<in> set (feed a)" and "hasattr item ''position_ticket''" and "position E item = Inl e"
  shows "\<exists>e' ts. process_account E a w
           = (None, logging (ErrorFor (get (roster a) ''username'') e')
                      (w\<lparr>acquired := acquired w + 1, sent := sent w @ ts\<rparr>))"
proof -
  from walk_fails[OF assms(4-6), of ctx "start (rss_trades w)"]
  obtain e' L where "walk E ctx (feed a) (start (rss_trades w)) = (Some e', L)" by blast
  from run_account_walk_fails[OF this assms(2,3)] assms(1) show ?thesis
    by (auto simp: process_account_def)
qed

lemma absent_field_raises:
  assumes "map_of item k = None"
  shows "float_unless_zero item k = Inl AttributeError" "float_if_set item k = Inl AttributeError"
    "int_if_set item k = Inl AttributeError" "text_of item k = Inl AttributeError"
  using assms by (simp_all add: float_unless_zero_def float_if_set_def int_if_set_def text_of_def attr_def bnd_def)

lemma position_absent_tp_sl:
  assumes "(k, c) \<in> set zero_unset_fields" and "map_of item k = None"
  shows "\<exists>e. position E item = Inl e"
proof -
  from assms have "Inl AttributeError \<in> set [
     bnd (attr item ''position_ticket'') to_int,
     text_of item ''position_action'',
     float_if_set item ''position_lots'',
     text_of item ''position_symbol'',
     float_if_set item ''position_openprice'',
     float_if_set item ''position_closeprice'',
     bnd (attr item ''position_opentime'') (\<lambda>s. Inr (normalize_timestamp E s)),
     bnd (attr item ''position_closetime'')
       (\<lambda>s. if s \<noteq> ''Thu 1 Jan 1970 00:00:00'' then Inr (normalize_timestamp E s) else Inr NoneV),
     float_if_set item ''position_profit'',
     float_if_set item ''position_swap'',
     float_if_set item ''position_commission'',
     float_if_set item ''position_totalprofit'',
     float_unless_zero item ''position_tp'',
     float_unless_zero item ''position_sl'',
     int_if_set item ''position_magicnumber'']"
    using absent_field_raises(1)[of item k] by (auto simp: zero_unset_fields_def)
  from collect_Inl[OF this] show ?thesis by (simp add: position_def)
qed

lemma zero_text:
  assumes "map_of item k = Some ''0''"
  shows "float_unless_zero item k = Inr NoneV" "float_if_set item k = Inr (FloatV (Fin 0))"
    "int_if_set item k = Inr (IntV 0)"
  using assms
  by (simp_all add: float_unless_zero_def float_if_set_def int_if_set_def attr_def bnd_def
        to_float_def to_int_def float_of_def int_of_def parse_defs)

lemma if_set_column:
  assumes "position E item = Inr p" and "(k, c) \<in> set if_set_fields"
  shows "\<exists>v. map_of (zip position_cols p) c = Some v
           \<and> (if k = ''position_magicnumber'' then int_if_set item k else float_if_set item k) = Inr v"
proof -
  from position_InrD[OF assms(1)]
  obtain v1 v2 v3 v4 v5 v6 v7 v8 v9 v10 v11 v12 v13 v14 v15 where
    p: "p = [v1, v2, v3, v4, v5, v6, v7, v8, v9, v10, v11, v12, v13, v14, v15]"
    and f: "float_if_set item ''position_lots'' = Inr v3"
      "float_if_set item ''position_openprice'' = Inr v5"
      "float_if_set item ''position_closeprice'' = Inr v6"
      "float_if_set item ''position_profit'' = Inr v9"
      "float_if_set item ''position_swap'' = Inr v10"
      "float_if_set item ''position_commission'' = Inr v11"
      "float_if_set item ''position_totalprofit'' = Inr v12"
      "int_if_set item ''position_magicnumber'' = Inr v15"
    by blast
  from assms(2) have "(k, c) = (''position_lots'', ''lots'') \<or> (k, c) = (''position_openprice'', ''open_price'')
     \<or> (k, c) = (''position_closeprice'', ''close_price'') \<or> (k, c) = (''position_profit'', ''profit'')
     \<or> (k, c) = (''position_swap'', ''swap'') \<or> (k, c) = (''position_commission'', ''commission'')
     \<or> (k, c) = (''position_totalprofit'', ''total_profit'')
     \<or> (k, c) = (''position_magicnumber'', ''magic_number'')"
    by (simp add: if_set_fields_def)
  then show ?thesis
    by (elim disjE) (simp_all add: p f position_cols_def)
qed

lemma zero_unset_column:
  assumes "position E item = Inr p" and "(k, c) \<in> set zero_unset_fields"
  shows "\<exists>v. map_of (zip position_cols p) c = Some v \<and> float_unless_zero item k = Inr v"
  using position_InrD[OF assms(1)] assms(2)
  by (auto simp: zero_unset_fields_def position_cols_def)

text \<open>
  Claim C7, as amended. A take-profit or stop-loss text equal to \<open>0\<close> normalizes to null,
  while the text \<open>0\<close> in any other numeric position field is kept as the number zero.
  An entry that carries a position ticket but lacks the take-profit or the stop-loss field
  yields no record: reading the field raises, and the unit ends with an error, its
  connection not released and nothing committed.
\<close>

theorem zero_means_unset_only_for_tp_sl:
  "(\<forall>p. (k, c) \<in> set zero_unset_fields \<and> map_of item k = Some ''0'' \<and> position E item = Inr p
        \<longrightarrow> map_of (zip position_cols p) c = Some NoneV)
   \<and> (\<forall>p. (k, c) \<in> set if_set_fields \<and> map_of item k = Some ''0'' \<and> position E item = Inr p
        \<longrightarrow> map_of (zip position_cols p) c
              = Some (if k = ''position_magicnumber'' then IntV 0 else FloatV (Fin 0)))
   \<and> ((k, c) \<in> set zero_unset_fields \<and> map_of item k = None
        \<longrightarrow> (\<exists>e. position E item = Inl e)
          \<and> (header (roster a) = Inr ctx \<and> connects E \<and> \<not> rejects E ctx \<and> item \<in> set (feed a)
               \<and> hasattr item ''position_ticket''
             \<longrightarrow> (\<exists>e ts. process_account E a w
                    = (None, logging (ErrorFor (get (roster a) ''username'') e)
                               (w\<lparr>acquired := acquired w + 1, sent := sent w @ ts\<rparr>)))))"
proof (intro conjI allI impI)
  fix p assume a: "(k, c) \<in> set zero_unset_fields \<and> map_of item k = Some ''0'' \<and> position E item = Inr p"
  then have m: "(k, c) \<in> set zero_unset_fields" and z: "map_of item k = Some ''0''"
    and p: "position E item = Inr p" by simp_all
  from zero_unset_column[OF p m] zero_text(1)[OF z]
  show "map_of (zip position_cols p) c = Some NoneV"
    by auto
next
  fix p assume a: "(k, c) \<in> set if_set_fields \<and> map_of item k = Some ''0'' \<and> position E item = Inr p"
  then have m: "(k, c) \<in> set if_set_fields" and z: "map_of item k = Some ''0''"
    and p: "position E item = Inr p" by simp_all
  from if_set_column[OF p m] zero_text(2,3)[OF z]
  show "map_of (zip position_cols p) c
              = Some (if k = ''position_magicnumber'' then IntV 0 else FloatV (Fin 0))"
    by (auto split: if_splits)
next
  assume a: "(k, c) \<in> set zero_unset_fields \<and> map_of item k = None"
  then show "\<exists>e. position E item = Inl e" using position_absent_tp_sl by blast
next
  assume a: "(k, c) \<in> set zero_unset_fields \<and> map_of item k = None"
    and b: "header (roster a) = Inr ctx \<and> connects E \<and> \<not> rejects E ctx \<and> item \<in> set (feed a)
               \<and> hasattr item ''position_ticket''"
  from a obtain e where "position E item = Inl e" using position_absent_tp_sl by blast
  with b unit_fails[of a ctx E item e w]
  show "\<exists>e ts. process_account E a w
                    = (None, logging (ErrorFor (get (roster a) ''username'') e)
                               (w\<lparr>acquired := acquired w + 1, sent := sent w @ ts\<rparr>))"
    by blast
qed


theorem zero_means_unset_only_for_tp_sl_witness:
  "map_of entry0 ''position_tp'' = Some ''0''
   \<and> map_of entry0 ''position_openprice'' = Some ''0''
   \<and> position env0 entry0 = Inr position0
   \<and> map_of (zip position_cols position0) ''take_profit'' = Some NoneV
   \<and> map_of (zip position_cols position0) ''open_price'' = Some (FloatV (Fin 0))
   \<and> map_of entry_no_tp ''position_tp'' = None
   \<and> (\<exists>e. position env0 entry_no_tp = Inl e)"
proof -
  have a: "map_of entry0 ''position_tp'' = Some ''0''"
    and b: "map_of entry0 ''position_openprice'' = Some ''0''"
    by (simp_all add: entry0_def)
  have c: "map_of entry_no_tp ''position_tp'' = None" by (simp add: entry_no_tp_def)
  have m1: "(''position_tp'', ''take_profit'') \<in> set zero_unset_fields"
    by (simp add: zero_unset_fields_def)
  have m2: "(''position_openprice'', ''open_price'') \<in> set if_set_fields"
    by (simp add: if_set_fields_def)
  from zero_means_unset_only_for_tp_sl[of "''position_tp''" "''take_profit''" entry0 env0] m1 a
    position_entry0
  have t1: "map_of (zip position_cols position0) ''take_profit'' = Some NoneV" by blast
  from zero_means_unset_only_for_tp_sl[of "''position_openprice''" "''open_price''" entry0 env0] m2 b
    position_entry0
  have t2: "map_of (zip position_cols position0) ''open_price'' = Some (FloatV (Fin 0))" by auto
  from zero_means_unset_only_for_tp_sl[of "''position_tp''" "''take_profit''" entry_no_tp env0] m1 c
  have t3: "\<exists>e. position env0 entry_no_tp = Inl e" by blast
  from a b c position_entry0 t1 t2 t3 show ?thesis by blast
qed

lemma position_entry_no_tp: "position env0 entry_no_tp = Inl AttributeError"
  by (simp add: rss_defs parse_defs env0_def entry_no_tp_def)

lemma process_account_single_failure:
  assumes "header (roster a) = Inr ctx" and "connects E" and "\<not> rejects E ctx"
      and "feed a = [item]" and "\<not> hasattr item ''account_balance''"
      and "hasattr item ''position_ticket''" and "position E item = Inl e"
  shows "process_account E a w
           = (None, logging (ErrorFor (get (roster a) ''username'') e) (w\<lparr>acquired := acquired w + 1\<rparr>))"
proof -
  from assms(5-7) have "walk E ctx [item] (start (rss_trades w))
      = (Some e, start (rss_trades w))"
    by (simp add: step_def read_summary_def start_def Let_def)
  from run_account_walk_fails[OF this[folded assms(4)] assms(2,3)] assms(1)
  show ?thesis by (simp add: process_account_def start_def)
qed

lemma env0_db: "connects env0" "\<not> rejects env0 t"
  by (simp_all add: env0_def)

text \<open>
  Claim C7, as stated, fails where the take-profit field is absent: the entry below carries
  every position field but \<open>position_tp\<close>, and instead of a record with a null
  take-profit the normalizer raises, which ends the unit.
\<close>

theorem absent_take_profit_counterexample:
  "map_of entry_no_tp ''position_tp'' = None
   \<and> position env0 entry_no_tp = Inl AttributeError
   \<and> process_account env0 \<lparr>roster = roster0, feed = [entry_no_tp]\<rparr> world0
       = (None, world0\<lparr>logged := [ErrorFor (StrV ''acct1'') AttributeError], acquired := 1\<rparr>)"
proof -
  have h: "header (roster \<lparr>roster = roster0, feed = [entry_no_tp]\<rparr>) = Inr ctx0"
    using header_roster0 by simp
  have "process_account env0 \<lparr>roster = roster0, feed = [entry_no_tp]\<rparr> world0
       = (None, logging (ErrorFor (get roster0 ''username'') AttributeError)
                  (world0\<lparr>acquired := acquired world0 + 1\<rparr>))"
    using process_account_single_failure[OF h env0_db(1) env0_db(2), of entry_no_tp AttributeError world0]
      position_entry_no_tp
    by (simp add: hasattr_def entry_no_tp_def)
  moreover have "logging (ErrorFor (get roster0 ''username'') AttributeError)
                  (world0\<lparr>acquired := acquired world0 + 1\<rparr>)
       = world0\<lparr>logged := [ErrorFor (StrV ''acct1'') AttributeError], acquired := 1\<rparr>"
    by (simp add: logging_def world0_def get_def roster0_def)
  moreover have "map_of entry_no_tp ''position_tp'' = None"
    by (simp add: entry_no_tp_def)
  ultimately show ?thesis
    using position_entry_no_tp by simp
qed


section \<open>What the normalizers return\<close>

lemma num_or_null_iff: "num_or_null v \<longleftrightarrow> (\<forall>s. v \<noteq> StrV s)"
  by (cases v) (auto simp: num_or_null_def is_number_def isna_def)

lemma to_float_Inr: "to_float s = Inr v \<Longrightarrow> \<exists>f. v = FloatV f"
  by (auto simp: to_float_def bnd_def split: sum.splits)

lemma to_float_num: "to_float s = Inr v \<Longrightarrow> num_or_null v"
  by (auto simp: num_or_null_iff dest: to_float_Inr)

lemma to_int_Inr: "to_int s = Inr v \<Longrightarrow> \<exists>n. v = IntV n \<and> py_int s = Some n"
  by (auto simp: to_int_def int_of_def bnd_def split: sum.splits option.splits)




lemma ticket_Inr:
  "bnd (attr item ''position_ticket'') to_int = Inr v \<Longrightarrow>
   \<exists>s n. map_of item ''position_ticket'' = Some s \<and> py_int s = Some n \<and> v = IntV n"
  by (auto simp: attr_def bnd_def dest: to_int_Inr split: option.splits)

lemma to_pct_Inr: "to_pct x = Inr v \<Longrightarrow> num_or_null v"
  by (auto simp: to_pct_def bnd_def num_or_null_iff split: if_splits val.splits sum.splits)

lemma header_InrD:
  assumes "header r = Inr ctx"
  shows "\<exists>c1 c2 c3 c4 c5 c6. ctx = [c1, c2, c3, c4, c5, c6]
           \<and> num_or_null c4 \<and> num_or_null c5 \<and> num_or_null c6"
  using assms unfolding header_def collect_Inr_iff
  by (auto simp: Cons_eq_map_conv dest: to_pct_Inr)

lemma account_summary_good: "account_summary item = Inr sm \<Longrightarrow> good_summary sm"
  unfolding account_summary_def collect_Inr_iff good_summary_def
  by (auto simp: Cons_eq_map_conv attr_def bnd_def dest: to_float_num split: option.splits)

lemma read_summary_good: "good_summary sm \<Longrightarrow> read_summary item sm = Inr sm' \<Longrightarrow> good_summary sm'"
  by (auto simp: read_summary_def dest: account_summary_good split: if_splits)

lemma good_summary_start: "good_summary (summary (start tbl))"
  by (simp add: start_def good_summary_def num_or_null_iff)

lemma good_summaryD:
  "good_summary sm \<Longrightarrow> \<exists>s1 s2 s3 s4 s5. sm = [s1, s2, s3, s4, s5]
      \<and> num_or_null s1 \<and> num_or_null s2 \<and> num_or_null s3 \<and> num_or_null s4 \<and> num_or_null s5"
  by (auto simp: good_summary_def length_Suc_conv eval_nat_numeral)


section \<open>The tuples handed to the writer\<close>

lemma flush_invariant:
  assumes "\<forall>t\<in>set (trades L) \<union> set (handed L). Q t" and "flush E L = (x, L')"
  shows "summary L' = summary L \<and> trades L' = trades L
       \<and> (\<forall>t\<in>set (trades L') \<union> set (handed L'). Q t)"
  using assms by (auto simp: flush_def Let_def split: sum.splits)

lemma step_invariant:
  assumes S: "good_summary (summary L)" and Q: "\<forall>t\<in>set (trades L) \<union> set (handed L). Q t"
      and pos: "\<And>sm p. good_summary sm \<Longrightarrow> hasattr item ''position_ticket'' \<Longrightarrow>
                  position E item = Inr p \<Longrightarrow> Q (trade_tuple ctx sm p)"
      and st: "step E ctx item L = (x, L')"
  shows "good_summary (summary L') \<and> (\<forall>t\<in>set (trades L') \<union> set (handed L'). Q t)"
proof (cases "read_summary item (summary L)")
  case (Inl e)
  with st S Q show ?thesis by (simp add: step_def)
next
  case (Inr sm)
  then have g: "good_summary sm" using S read_summary_good by blast
  let ?L1 = "L\<lparr>summary := sm\<rparr>"
  show ?thesis
  proof (cases "hasattr item ''position_ticket''")
    case False
    with Inr st have "L' = ?L1" by (simp add: step_def Let_def)
    with g Q show ?thesis by simp
  next
    case True
    show ?thesis
    proof (cases "position E item")
      case (Inl e)
      with Inr True st have "L' = ?L1" by (simp add: step_def Let_def)
      with g Q show ?thesis by simp
    next
      case p: (Inr p)
      let ?L2 = "?L1\<lparr>trades := trades ?L1 @ [trade_tuple ctx sm p]\<rparr>"
      have q2: "\<forall>t\<in>set (trades ?L2) \<union> set (handed ?L2). Q t"
        using Q pos[OF g True p] by auto
      show ?thesis
      proof (cases "BATCH_SIZE E \<le> int (length (trades ?L2))")
        case False
        with Inr True p st have "L' = ?L2" by (simp add: step_def Let_def)
        with g q2 show ?thesis by simp
      next
        case big: True
        obtain y L3 where f: "flush E ?L2 = (y, L3)" by (cases "flush E ?L2")
        from flush_invariant[OF q2 f] have i3: "summary L3 = sm"
          "\<forall>t\<in>set (trades L3) \<union> set (handed L3). Q t" by simp_all
        from Inr True p big f st have "L' = L3 \<or> L' = L3\<lparr>trades := []\<rparr>"
          by (cases y) (simp_all add: step_def Let_def)
        with g i3 show ?thesis by auto
      qed
    qed
  qed
qed

lemma walk_invariant:
  assumes "good_summary (summary L)" and "\<forall>t\<in>set (trades L) \<union> set (handed L). Q t"
      and "\<And>item sm p. item \<in> set items \<Longrightarrow> good_summary sm \<Longrightarrow> hasattr item ''position_ticket'' \<Longrightarrow>
                  position E item = Inr p \<Longrightarrow> Q (trade_tuple ctx sm p)"
      and "walk E ctx items L = (x, L')"
  shows "\<forall>t\<in>set (trades L') \<union> set (handed L'). Q t"
  using assms
proof (induction items arbitrary: L)
  case Nil
  then show ?case by simp
next
  case (Cons i items)
  obtain y L1 where s: "step E ctx i L = (y, L1)" by (cases "step E ctx i L")
  have i1: "good_summary (summary L1) \<and> (\<forall>t\<in>set (trades L1) \<union> set (handed L1). Q t)"
    by (rule step_invariant[OF Cons.prems(1,2) _ s]) (rule Cons.prems(3), simp_all)
  show ?case
  proof (cases y)
    case None
    with s Cons.prems(4) have w: "walk E ctx items L1 = (x, L')" by simp
    show ?thesis
      by (rule Cons.IH[OF _ _ _ w]) (use i1 Cons.prems(3) in auto)
  next
    case (Some e)
    with s Cons.prems(4) have "L' = L1" by simp
    with i1 show ?thesis by simp
  qed
qed

lemma final_batch_handed:
  assumes "\<forall>t\<in>set (trades L) \<union> set (handed L). Q t" and "final_batch E (x, L) = (y, L')"
  shows "\<forall>t\<in>set (handed L'). Q t"
proof (cases x)
  case (Some e)
  with assms show ?thesis by (simp add: final_batch_def)
next
  case None
  show ?thesis
  proof (cases "trades L = []")
    case True
    with None assms show ?thesis by (simp add: final_batch_def)
  next
    case False
    with None assms(2) have "flush E L = (y, L')" by (simp add: final_batch_def)
    from flush_invariant[OF assms(1) this] show ?thesis by simp
  qed
qed

lemma run_account_sent:
  assumes "\<And>item sm p. item \<in> set items \<Longrightarrow> good_summary sm \<Longrightarrow> hasattr item ''position_ticket'' \<Longrightarrow>
                  position E item = Inr p \<Longrightarrow> Q (trade_tuple ctx sm p)"
  shows "\<exists>ts. sent (run_account E sa ctx items w) = sent w @ ts \<and> (\<forall>t\<in>set ts. Q t)"
proof -
  obtain x L where wk: "walk E ctx items (start (rss_trades w)) = (x, L)"
    by (cases "walk E ctx items (start (rss_trades w))")
  obtain y L' where fb: "final_batch E (x, L) = (y, L')" by (cases "final_batch E (x, L)")
  have "\<forall>t\<in>set (trades L) \<union> set (handed L). Q t"
    by (rule walk_invariant[OF good_summary_start _ _ wk]) (simp add: start_def, rule assms)
  from final_batch_handed[OF this fb] have h: "\<forall>t\<in>set (handed L'). Q t" .
  have "sent (run_account E sa ctx items w) = sent w \<or> sent (run_account E sa ctx items w) = sent w @ handed L'"
    using wk fb by (cases y) (simp_all add: run_account_def Let_def logging_def execute_META)
  with h show ?thesis by (metis append_Nil2 empty_iff list.set(1))
qed

lemma process_account_sent:
  assumes "\<And>ctx item sm p. header (roster a) = Inr ctx \<Longrightarrow> item \<in> set (feed a) \<Longrightarrow> good_summary sm \<Longrightarrow>
              hasattr item ''position_ticket'' \<Longrightarrow> position E item = Inr p \<Longrightarrow> Q (trade_tuple ctx sm p)"
  shows "\<exists>ts. sent (snd (process_account E a w)) = sent w @ ts \<and> (\<forall>t\<in>set ts. Q t)"
proof (cases "header (roster a)")
  case (Inl e)
  then show ?thesis by (simp add: process_account_def)
next
  case (Inr ctx)
  from run_account_sent[of "feed a" E Q ctx "get (roster a) ''username''" w] assms[OF Inr] Inr
  show ?thesis by (simp add: process_account_def)
qed


lemma rss_tuple_ticket:
  assumes h: "header r = Inr ctx" and g: "good_summary sm" and p: "position E item = Inr p"
  shows "\<exists>s n. map_of item ''position_ticket'' = Some s \<and> py_int s = Some n
           \<and> bind_params (into_cols TRADES_UPSERT) (trade_tuple ctx sm p) ''ticket'' = IntV n"
proof -
  from header_InrD[OF h] obtain c1 c2 c3 c4 c5 c6 where
    ctx: "ctx = [c1, c2, c3, c4, c5, c6]" by blast
  from good_summaryD[OF g] obtain s1 s2 s3 s4 s5 where
    sm: "sm = [s1, s2, s3, s4, s5]" by blast
  from position_InrD[OF p]
  obtain v1 v2 v3 v4 v5 v6 v7 v8 v9 v10 v11 v12 v13 v14 v15 where
    pl: "p = [v1, v2, v3, v4, v5, v6, v7, v8, v9, v10, v11, v12, v13, v14, v15]"
    and f: "bnd (attr item ''position_ticket'') to_int = Inr v1"
    by blast
  from ticket_Inr[OF f] obtain s n where
    t: "map_of item ''position_ticket'' = Some s" "py_int s = Some n" "v1 = IntV n" by blast
  have "bind_params (into_cols TRADES_UPSERT) (trade_tuple ctx sm p) ''ticket'' = v1"
    unfolding ctx sm pl
    by (simp add: bind_params_def TRADES_UPSERT_def rss_gpt_cols_def trade_tuple_def)
  with t show ?thesis by simp
qed


section \<open>Normalizing a CSV frame\<close>




lemma length_to_numeric: "length (to_numeric vs) = length vs"
  by (simp add: to_numeric_def Let_def)






lemma columns_assign_column: "columns (assign_column c vs df) = columns df"
  by (simp add: assign_column_def)





lemma drop_duplicates_subset: "set (drop_duplicates key seen rs) \<subseteq> set rs"
  by (induction rs arbitrary: seen) auto

lemma dedupe_subset: "set (rows (dedupe E df)) \<subseteq> set (rows df)"
  using drop_duplicates_subset[of "row_hash E" "[]" "rows df"] by (auto simp: dedupe_def)

text \<open>
  The loop over the enrichment columns raises at its first column, on every frame.
\<close>

lemma placeholders_raises:
  "placeholders df = Inl (if ''setdefault'' \<in> set (columns df) then TypeError else AttributeError)"
  by (simp add: placeholders_def gpt_cols_def setdefault_def bnd_def)

lemma coerce_then_placeholders_raises: "\<exists>e. bnd (coerce_numeric df) placeholders = Inl e"
  by (cases "coerce_numeric df") (simp_all add: bnd_def placeholders_raises)

lemma coerce_then_placeholders_not_Inr: "bnd (coerce_numeric df) placeholders \<noteq> Inr x"
  using coerce_then_placeholders_raises[of df] by auto

lemma process_blob_writes_nothing:
  "sent (process_blob E b w) = sent w
   \<and> historical_trades (process_blob E b w) = historical_trades w
   \<and> acquired (process_blob E b w) = acquired w
   \<and> released (process_blob E b w) = released w"
  by (auto simp: process_blob_def Let_def logging_def coerce_then_placeholders_not_Inr
           split: sum.splits)

lemma tuple_of_InrD:
  assumes "tuple_of r = Inr t"
  shows "\<exists>v1 v2 v3 v4 v5 v6 v7 v8 v9 v17 v18 v19 v20 v21 v22.
     t = [v1, v2, v3, v4, v5, v6, v7, v8, v9, get r ''net_profit'', get r ''mae'', get r ''mfe'',
          get r ''pips'', get r ''tp'', get r ''sl'', get r ''trade_duration_hours'',
          v17, v18, v19, v20, v21, v22]
     \<and> (\<exists>v n. map_of r ''Ticket'' = Some v \<and> int_of v = Inr n \<and> v1 = IntV n)
     \<and> map_of r ''entry_price'' = Some v5
     \<and> map_of r ''exit_price'' = Some v6
     \<and> map_of r ''pnl'' = Some v9"
  using assms unfolding tuple_of_def collect_Inr_iff
  by (auto simp: Cons_eq_map_conv gpt_cols_def getitem_def bnd_def split: option.splits sum.splits)

lemma build_vals_InrD:
  "build_vals rs = Inr vals \<Longrightarrow> \<forall>t\<in>set vals. \<exists>r\<in>set rs. tuple_of r = Inr t"
  unfolding build_vals_def collect_Inr_iff
  by (metis (no_types, lifting) in_set_conv_nth length_map nth_map nth_mem)

lemma write_rows_sent:
  "sent (write_rows E nm rs w) = sent w
   \<or> (\<exists>vals. build_vals rs = Inr vals \<and> sent (write_rows E nm rs w) = sent w @ vals)"
  by (auto simp: write_rows_def submit_def logging_def Let_def split: sum.splits)


section \<open>Missing required columns\<close>

lemma ren_account_id: "ren ''account_id'' = ''account_id''"
  by (simp add: ren_def rename_table_def)

lemma columns_renamed:
  "set (columns (rename_columns (set_column ''account_id'' v df0)))
     = ren ` set (columns df0) \<union> {''account_id''}"
proof -
  have "''account_id'' \<in> set (columns df0) \<Longrightarrow> ''account_id'' \<in> ren ` set (columns df0)"
    using ren_account_id by (metis image_eqI)
  then show ?thesis
    by (auto simp: set_column_def rename_columns_def ren_account_id)
qed

lemma columns_clean:
  assumes "clean E nm df0 = Inr df"
  shows "set (columns df) = ren ` set (columns df0) \<union> {''account_id''}"
proof -
  let ?d = "rename_columns (set_column ''account_id'' (StrV (account_id_of nm)) df0)"
  from assms have "columns df = columns ?d"
    by (auto simp: clean_def Let_def columns_assign_column split: if_splits option.splits)
  then show ?thesis by (simp add: columns_renamed)
qed

lemma clean_without_timestamp:
  assumes "''timestamp'' \<notin> ren ` set (columns df0)"
  shows "\<exists>df. clean E nm df0 = Inr df"
proof -
  let ?d = "rename_columns (set_column ''account_id'' (StrV (account_id_of nm)) df0)"
  from assms have "''timestamp'' \<notin> set (columns ?d)" unfolding columns_renamed by simp
  then show ?thesis by (simp add: clean_def Let_def)
qed

lemma account_id_not_required: "''account_id'' \<notin> set required"
  by (simp add: required_def)

lemma process_blob_skip:
  assumes "read_csv b = Inr df0" and "clean E (name b) df0 = Inr df"
      and "col \<in> set required" and "col \<notin> ren ` set (columns df0)"
  shows "process_blob E b w = logging (Skipping (name b)) (logging (Starting (name b)) w)"
proof -
  from assms(3,4) account_id_not_required have "col \<notin> set (columns df)"
    unfolding columns_clean[OF assms(2)] by auto
  with assms(3) have "\<not> (\<forall>c \<in> set required. c \<in> set (columns df))"
    by blast
  with assms(1,2) show ?thesis by (simp add: process_blob_def Let_def)
qed

lemma process_blob_clean_raises:
  assumes "read_csv b = Inr df0" and "clean E (name b) df0 = Inl e"
  shows "process_blob E b w = logging (ErrorProcessing (name b) e) (logging (Starting (name b)) w)"
  using assms by (simp add: process_blob_def Let_def)

text \<open>
  Claim C8, as amended. Take a CSV unit whose frame lacks, after the renaming, one of the
  required columns. When the account column, the renaming and the timestamp cleanup go
  through, the unit logs its start and one warning and does nothing else. When the
  timestamp cleanup raises, the unit logs its start and the error, and no warning. In
  both cases no connection is opened, no tuple is handed to the writer, the table is
  unchanged, and the units after it are processed from the world it leaves. The cleanup
  goes through whenever the frame has no timestamp column after the renaming.
\<close>

theorem missing_required_column_skips_unit:
  assumes "read_csv b = Inr df0" and "col \<in> set required" and "col \<notin> ren ` set (columns df0)"
  shows "(clean E (name b) df0 = Inr df \<longrightarrow>
            process_blob E b w = w\<lparr>logged := logged w @ [Starting (name b), Skipping (name b)]\<rparr>
          \<and> length (filter (\<lambda>l. level_of l = WARNING)
                      (drop (length (logged w)) (logged (process_blob E b w)))) = 1)
       \<and> (clean E (name b) df0 = Inl e \<longrightarrow>
            process_blob E b w
              = w\<lparr>logged := logged w @ [Starting (name b), ErrorProcessing (name b) e]\<rparr>
          \<and> length (filter (\<lambda>l. level_of l = WARNING)
                      (drop (length (logged w)) (logged (process_blob E b w)))) = 0)
       \<and> (''timestamp'' \<notin> ren ` set (columns df0) \<longrightarrow> (\<exists>d. clean E (name b) df0 = Inr d))
       \<and> sent (process_blob E b w) = sent w
       \<and> historical_trades (process_blob E b w) = historical_trades w
       \<and> acquired (process_blob E b w) = acquired w
       \<and> main_csv E (earlier @ b # later) w
           = main_csv E later (process_blob E b (main_csv E earlier w))"
proof (intro conjI impI)
  assume c: "clean E (name b) df0 = Inr df"
  from process_blob_skip[OF assms(1) c assms(2,3), of w]
  show p: "process_blob E b w = w\<lparr>logged := logged w @ [Starting (name b), Skipping (name b)]\<rparr>"
    by (simp add: logging_def)
  show "length (filter (\<lambda>l. level_of l = WARNING)
                      (drop (length (logged w)) (logged (process_blob E b w)))) = 1"
    by (simp add: p)
next
  assume c: "clean E (name b) df0 = Inl e"
  from process_blob_clean_raises[OF assms(1) c, of w]
  show p: "process_blob E b w
              = w\<lparr>logged := logged w @ [Starting (name b), ErrorProcessing (name b) e]\<rparr>"
    by (simp add: logging_def)
  show "length (filter (\<lambda>l. level_of l = WARNING)
                      (drop (length (logged w)) (logged (process_blob E b w)))) = 0"
    by (simp add: p)
next
  assume "''timestamp'' \<notin> ren ` set (columns df0)"
  then show "\<exists>d. clean E (name b) df0 = Inr d" by (rule clean_without_timestamp)
next
  show "sent (process_blob E b w) = sent w"
    "historical_trades (process_blob E b w) = historical_trades w"
    "acquired (process_blob E b w) = acquired w"
    using process_blob_writes_nothing[of E b w] by simp_all
next
  show "main_csv E (earlier @ b # later) w
           = main_csv E later (process_blob E b (main_csv E earlier w))"
    by (simp add: main_csv_def)
qed

lemma clean_frame_no_profit:
  "\<exists>df. clean env0 ''testcsvs/1002.csv'' frame_no_profit = Inr df"
  by (simp add: clean_def Let_def env0_def frame_no_profit_def set_column_def rename_columns_def
        ren_def rename_table_def)

lemma process_blob_past_check:
  assumes "read_csv b = Inr df0" and "clean E (name b) df0 = Inr df"
      and "\<forall>col \<in> set required. col \<in> set (columns df)"
  shows "\<exists>e. process_blob E b w
           = w\<lparr>logged := logged w @ [Starting (name b), ErrorProcessing (name b) e]\<rparr>"
proof -
  from coerce_then_placeholders_raises[of df] obtain e where
    "bnd (coerce_numeric df) placeholders = Inl e" by blast
  with assms have "process_blob E b w
           = w\<lparr>logged := logged w @ [Starting (name b), ErrorProcessing (name b) e]\<rparr>"
    by (simp add: process_blob_def Let_def logging_def)
  then show ?thesis by blast
qed

lemma process_blob0:
  "logged (process_blob env0 blob0
     (world0\<lparr>logged := [Starting ''testcsvs/1002.csv'', Skipping ''testcsvs/1002.csv'']\<rparr>))
     = [Starting ''testcsvs/1002.csv'', Skipping ''testcsvs/1002.csv'',
        Starting ''testcsvs/1001.csv'', ErrorProcessing ''testcsvs/1001.csv'' AttributeError]"
  by code_simp

theorem missing_required_column_skips_unit_witness:
  "read_csv blob_no_profit = Inr frame_no_profit
   \<and> ''pnl'' \<in> set required
   \<and> ''pnl'' \<notin> ren ` set (columns frame_no_profit)
   \<and> process_blob env0 blob_no_profit world0
       = world0\<lparr>logged := [Starting ''testcsvs/1002.csv'', Skipping ''testcsvs/1002.csv'']\<rparr>
   \<and> sent (process_blob env0 blob_no_profit world0) = []
   \<and> acquired (process_blob env0 blob_no_profit world0) = 0
   \<and> logged (main_csv env0 [blob_no_profit, blob0] world0)
       = [Starting ''testcsvs/1002.csv'', Skipping ''testcsvs/1002.csv'',
          Starting ''testcsvs/1001.csv'', ErrorProcessing ''testcsvs/1001.csv'' AttributeError]"
proof -
  have a: "read_csv blob_no_profit = Inr frame_no_profit" by (simp add: blob_no_profit_def)
  have b: "''pnl'' \<in> set required" by (simp add: required_def)
  have c: "''pnl'' \<notin> ren ` set (columns frame_no_profit)"
    by (simp add: frame_no_profit_def ren_def rename_table_def)
  have n: "name blob_no_profit = ''testcsvs/1002.csv''" by (simp add: blob_no_profit_def)
  have l: "logged world0 = []" "sent world0 = []" "acquired world0 = 0"
    by (simp_all add: world0_def)
  from clean_frame_no_profit obtain df where
    d: "clean env0 (name blob_no_profit) frame_no_profit = Inr df" unfolding n by blast
  note T = missing_required_column_skips_unit[OF a b c, of env0 df world0 _ "[]" "[blob0]"]
  from T d have p: "process_blob env0 blob_no_profit world0
       = world0\<lparr>logged := [Starting ''testcsvs/1002.csv'', Skipping ''testcsvs/1002.csv'']\<rparr>"
    by (simp add: n l)
  from T l have s: "sent (process_blob env0 blob_no_profit world0) = []"
    "acquired (process_blob env0 blob_no_profit world0) = 0"
    by simp_all
  from T have "main_csv env0 [blob_no_profit, blob0] world0
       = process_blob env0 blob0 (process_blob env0 blob_no_profit world0)"
    by (simp add: main_csv_def)
  then have m: "logged (main_csv env0 [blob_no_profit, blob0] world0)
       = [Starting ''testcsvs/1002.csv'', Skipping ''testcsvs/1002.csv'',
          Starting ''testcsvs/1001.csv'', ErrorProcessing ''testcsvs/1001.csv'' AttributeError]"
    using process_blob0 by (simp add: p)
  from a b c p s m show ?thesis by simp
qed

text \<open>
  Claim C8, as stated, fails on the unit below. Its CSV has a column \<open>Open time\<close> and a
  column \<open>timestamp\<close> and no column \<open>Profit\<close>: the required column \<open>pnl\<close> is
  absent, but the renaming gives two columns the label \<open>timestamp\<close>, the timestamp
  cleanup raises before the required columns are checked, and the unit logs an error and no
  warning.
\<close>

theorem two_timestamp_columns_counterexample:
  "read_csv blob_two_timestamps = Inr frame_two_timestamps
   \<and> ''pnl'' \<in> set required
   \<and> ''pnl'' \<notin> ren ` set (columns frame_two_timestamps)
   \<and> clean env0 (name blob_two_timestamps) frame_two_timestamps = Inl ValueError
   \<and> logged (process_blob env0 blob_two_timestamps world0)
       = [Starting ''testcsvs/1004.csv'', ErrorProcessing ''testcsvs/1004.csv'' ValueError]
   \<and> filter (\<lambda>l. level_of l = WARNING) (logged (process_blob env0 blob_two_timestamps world0)) = []"
proof -
  have a: "read_csv blob_two_timestamps = Inr frame_two_timestamps"
    "name blob_two_timestamps = ''testcsvs/1004.csv''"
    by (simp_all add: blob_two_timestamps_def)
  have b: "''pnl'' \<in> set required" by (simp add: required_def)
  have c: "''pnl'' \<notin> ren ` set (columns frame_two_timestamps)"
    by (simp add: frame_two_timestamps_def ren_def rename_table_def)
  have d: "clean env0 ''testcsvs/1004.csv'' frame_two_timestamps = Inl ValueError"
    by (simp add: clean_def Let_def frame_two_timestamps_def set_column_def rename_columns_def
          ren_def rename_table_def)
  from process_blob_clean_raises[of blob_two_timestamps frame_two_timestamps env0 ValueError world0]
  have "logged (process_blob env0 blob_two_timestamps world0)
       = [Starting ''testcsvs/1004.csv'', ErrorProcessing ''testcsvs/1004.csv'' ValueError]"
    by (simp add: a d logging_def world0_def)
  with a b c d show ?thesis by simp
qed


section \<open>The ticket of a written record\<close>

lemma sent_process_account:
  assumes "header (roster a) = Inr ctx" and "connects E" and "\<not> rejects E ctx"
      and "walk E ctx (feed a) (start (rss_trades w)) = (None, L)"
  shows "sent (snd (process_account E a w)) = sent w @ handed L @ trades L"
proof -
  have "\<exists>x L'. final_batch E (None, L) = (x, L') \<and> handed L' = handed L @ trades L"
    by (cases "executemany (rejects E) (replace_values 31 TRADES_UPSERT) (trades L) (txn L)")
       (auto simp: final_batch_def flush_def Let_def)
  then obtain x L' where f: "final_batch E (None, L) = (x, L')"
    and h: "handed L' = handed L @ trades L" by blast
  from assms f h show ?thesis
    by (cases x) (simp_all add: process_account_def run_account_def Let_def logging_def execute_META)
qed

lemma tuple_of_bad_ticket:
  assumes "\<forall>v n. map_of r ''Ticket'' = Some v \<longrightarrow> int_of v \<noteq> Inr n"
  shows "\<exists>e. tuple_of r = Inl e"
proof -
  have "\<exists>e. bnd (getitem r ''Ticket'') (\<lambda>v. bnd (int_of v) (\<lambda>n. Inr (IntV n))) = Inl e"
    using assms by (auto simp: getitem_def bnd_def split: option.splits sum.splits)
  then show ?thesis by (auto simp: tuple_of_def)
qed

lemma build_vals_bad_ticket:
  assumes "r \<in> set rs" and "\<forall>v n. map_of r ''Ticket'' = Some v \<longrightarrow> int_of v \<noteq> Inr n"
  shows "\<exists>e. build_vals rs = Inl e"
proof -
  from tuple_of_bad_ticket[OF assms(2)] obtain e where "tuple_of r = Inl e" by blast
  with assms(1) have "Inl e \<in> set (map tuple_of rs)" by force
  from collect_Inl[OF this] show ?thesis by (simp add: build_vals_def)
qed

lemma write_rows_build_fails:
  assumes "build_vals rs = Inl e"
  shows "sent (write_rows E nm rs w) = sent w
       \<and> historical_trades (write_rows E nm rs w) = historical_trades w"
  using assms by (simp add: write_rows_def logging_def Let_def)

lemma csv_tuple_ticket:
  assumes "tuple_of r = Inr t"
  shows "\<exists>v n. map_of r ''Ticket'' = Some v \<and> int_of v = Inr n
           \<and> bind_params (into_cols UPSERT_SQL) t ''ticket'' = IntV n"
proof -
  from tuple_of_InrD[OF assms]
  obtain v1 v2 v3 v4 v5 v6 v7 v8 v9 v17 v18 v19 v20 v21 v22 where
    t: "t = [v1, v2, v3, v4, v5, v6, v7, v8, v9, get r ''net_profit'', get r ''mae'', get r ''mfe'',
          get r ''pips'', get r ''tp'', get r ''sl'', get r ''trade_duration_hours'',
          v17, v18, v19, v20, v21, v22]"
    and k: "\<exists>v n. map_of r ''Ticket'' = Some v \<and> int_of v = Inr n \<and> v1 = IntV n"
    by blast
  have "bind_params (into_cols UPSERT_SQL) t ''ticket'' = v1"
    unfolding t by (simp add: bind_params_def UPSERT_SQL_def gpt_cols_def)
  with k show ?thesis by auto
qed

lemma rss_failed_unit_commits_nothing:
  assumes "item \<in> set (feed a)" and "hasattr item ''position_ticket''" and "position E item = Inl e"
  shows "rss_trades (snd (process_account E a w)) = rss_trades w"
proof (cases "header (roster a)")
  case (Inl x)
  then show ?thesis by (simp add: process_account_def)
next
  case (Inr ctx)
  from walk_fails[OF assms, of ctx "start (rss_trades w)"]
  obtain e' L where "walk E ctx (feed a) (start (rss_trades w)) = (Some e', L)" by blast
  then have "written (final_batch E (walk E ctx (feed a) (start (rss_trades w)))) = Inl e'"
    by (simp add: final_batch_def written_def)
  with Inr show ?thesis by (simp add: process_account_def rss_trades_run_account)
qed

lemma position_bad_ticket:
  assumes "map_of item ''position_ticket'' = Some s" and "py_int s = None"
  shows "position E item = Inl ValueError"
  using assms by (simp add: position_def attr_def bnd_def to_int_def int_of_def)

text \<open>
  Claim C6. Every tuple handed to the upsert step holds an integer in its ticket column,
  obtained by \<open>int\<close> from the Ticket cell of a row (the loop that builds the tuples of
  a CSV unit) or from the \<open>position_ticket\<close> text of an entry of the feed (RSS). A row
  whose Ticket cell is missing or cannot be converted makes the loop raise before anything
  is handed over; an RSS entry whose ticket text cannot be converted is never handed over
  and the unit commits nothing. A whole CSV unit hands nothing over at all, as it never
  gets as far as that loop.
\<close>

theorem ticket_is_integer_before_writer:
  "sent (process_blob E b w) = sent w
   \<and> (\<exists>vals. sent (write_rows E nm rs w) = sent w @ vals
      \<and> (\<forall>t\<in>set vals. \<exists>r\<in>set rs. \<exists>v n.
            map_of r ''Ticket'' = Some v \<and> int_of v = Inr n
            \<and> bind_params (into_cols UPSERT_SQL) t ''ticket'' = IntV n))
   \<and> (\<exists>ts. sent (snd (process_account E a w)) = sent w @ ts
      \<and> (\<forall>t\<in>set ts. \<exists>item\<in>set (feed a). \<exists>s n. map_of item ''position_ticket'' = Some s
            \<and> py_int s = Some n
            \<and> bind_params (into_cols TRADES_UPSERT) t ''ticket'' = IntV n))
   \<and> (r0 \<in> set rs \<and> (\<forall>v n. map_of r0 ''Ticket'' = Some v \<longrightarrow> int_of v \<noteq> Inr n)
      \<longrightarrow> sent (write_rows E nm rs w) = sent w
          \<and> historical_trades (write_rows E nm rs w) = historical_trades w)
   \<and> (item0 \<in> set (feed a) \<and> map_of item0 ''position_ticket'' = Some s0 \<and> py_int s0 = None
      \<longrightarrow> rss_trades (snd (process_account E a w)) = rss_trades w)"
proof (intro conjI impI)
  show "sent (process_blob E b w) = sent w"
    using process_blob_writes_nothing[of E b w] by simp
next
  show "\<exists>vals. sent (write_rows E nm rs w) = sent w @ vals
      \<and> (\<forall>t\<in>set vals. \<exists>r\<in>set rs. \<exists>v n.
            map_of r ''Ticket'' = Some v \<and> int_of v = Inr n
            \<and> bind_params (into_cols UPSERT_SQL) t ''ticket'' = IntV n)"
    using write_rows_sent[of E nm rs w]
  proof
    assume "sent (write_rows E nm rs w) = sent w"
    then show ?thesis by (intro exI[of _ "[]"]) simp
  next
    assume "\<exists>vals. build_vals rs = Inr vals \<and> sent (write_rows E nm rs w) = sent w @ vals"
    then obtain vals where bv: "build_vals rs = Inr vals"
      and s: "sent (write_rows E nm rs w) = sent w @ vals" by blast
    have "\<forall>t\<in>set vals. \<exists>r\<in>set rs. \<exists>v n.
            map_of r ''Ticket'' = Some v \<and> int_of v = Inr n
            \<and> bind_params (into_cols UPSERT_SQL) t ''ticket'' = IntV n"
    proof
      fix t assume "t \<in> set vals"
      with build_vals_InrD[OF bv] obtain r where r: "r \<in> set rs" and t: "tuple_of r = Inr t"
        by blast
      from csv_tuple_ticket[OF t] r
      show "\<exists>r\<in>set rs. \<exists>v n.
            map_of r ''Ticket'' = Some v \<and> int_of v = Inr n
            \<and> bind_params (into_cols UPSERT_SQL) t ''ticket'' = IntV n"
        by blast
    qed
    with s show ?thesis by blast
  qed
next
  show "\<exists>ts. sent (snd (process_account E a w)) = sent w @ ts
      \<and> (\<forall>t\<in>set ts. \<exists>item\<in>set (feed a). \<exists>s n. map_of item ''position_ticket'' = Some s
            \<and> py_int s = Some n
            \<and> bind_params (into_cols TRADES_UPSERT) t ''ticket'' = IntV n)"
    by (rule process_account_sent) (use rss_tuple_ticket in blast)
next
  assume a: "r0 \<in> set rs \<and> (\<forall>v n. map_of r0 ''Ticket'' = Some v \<longrightarrow> int_of v \<noteq> Inr n)"
  with build_vals_bad_ticket[of r0 rs] obtain e where "build_vals rs = Inl e" by blast
  from write_rows_build_fails[OF this, of E nm w]
  show "sent (write_rows E nm rs w) = sent w"
    "historical_trades (write_rows E nm rs w) = historical_trades w"
    by simp_all
next
  assume a: "item0 \<in> set (feed a) \<and> map_of item0 ''position_ticket'' = Some s0 \<and> py_int s0 = None"
  then have "hasattr item0 ''position_ticket''" "position E item0 = Inl ValueError"
    using position_bad_ticket by (simp_all add: hasattr_def)
  with a rss_failed_unit_commits_nothing show "rss_trades (snd (process_account E a w)) = rss_trades w"
    by blast
qed

lemma walk_account0:
  "walk env0 ctx0 (feed account0) (start tbl)
     = (None, \<lparr>summary = summary0,
               trades = [trade_tuple ctx0 summary0 position0, trade_tuple ctx0 summary0 position1],
               txn = tbl, handed = []\<rparr>)"
proof -
  have s: "read_summary summary_entry (replicate 5 NoneV) = Inr summary0"
    using summary_of_summary_entry by (simp add: read_summary_def hasattr_def summary_entry_def)
  have n: "\<not> hasattr summary_entry ''position_ticket''"
    by (simp add: hasattr_def summary_entry_def)
  have s0: "read_summary entry0 summary0 = Inr summary0" "hasattr entry0 ''position_ticket''"
    by (simp_all add: read_summary_def hasattr_def entry0_def)
  have s1: "read_summary entry1 summary0 = Inr summary0" "hasattr entry1 ''position_ticket''"
    by (simp_all add: read_summary_def hasattr_def entry1_def)
  have b: "BATCH_SIZE env0 = 100" by (simp add: env0_def)
  show ?thesis
    by (simp add: account0_def start_def step_def Let_def s n s0 s1 b position_entry0 position_entry1)
qed

lemma sent_account0:
  "sent (snd (process_account env0 account0 world0))
     = [trade_tuple ctx0 summary0 position0, trade_tuple ctx0 summary0 position1]"
proof -
  have h: "header (roster account0) = Inr ctx0"
    using header_roster0 by (simp add: account0_def)
  show ?thesis
    using sent_process_account[OF h env0_db(1) _ walk_account0, of world0] env0_db(2)
    by (simp add: world0_def)
qed

lemma write_ready_rows:
  "sent (write_rows env0 ''testcsvs/1001.csv'' ready_rows world0) = [csv_tuple0, csv_tuple1]"
  by code_simp

theorem ticket_is_integer_before_writer_witness:
  "sent (process_blob env0 blob0 world0) = []
   \<and> sent (write_rows env0 ''testcsvs/1001.csv'' ready_rows world0) = [csv_tuple0, csv_tuple1]
   \<and> bind_params (into_cols UPSERT_SQL) csv_tuple0 ''ticket'' = IntV 55
   \<and> sent (snd (process_account env0 account0 world0))
       = [trade_tuple ctx0 summary0 position0, trade_tuple ctx0 summary0 position1]
   \<and> bind_params (into_cols TRADES_UPSERT) (trade_tuple ctx0 summary0 position0) ''ticket'' = IntV 7
   \<and> map_of row_bad_ticket ''Ticket'' = Some (StrV ''abc'')
   \<and> int_of (StrV ''abc'') = Inl ValueError
   \<and> sent (write_rows env0 ''testcsvs/1003.csv'' [row_bad_ticket] world0) = []
   \<and> map_of entry_bad_ticket ''position_ticket'' = Some ''12x''
   \<and> py_int ''12x'' = None
   \<and> rss_trades (snd (process_account env0 \<lparr>roster = roster0, feed = [entry_bad_ticket]\<rparr> world0))
       = rss_trades world0"
proof -
  have s0: "sent world0 = []" by (simp add: world0_def)
  have c2: "bind_params (into_cols UPSERT_SQL) csv_tuple0 ''ticket'' = IntV 55"
    by (simp add: bind_params_def UPSERT_SQL_def csv_tuple0_def)
  have r2: "bind_params (into_cols TRADES_UPSERT) (trade_tuple ctx0 summary0 position0) ''ticket'' = IntV 7"
    by (simp add: bind_params_def TRADES_UPSERT_def trade_tuple_def ctx0_def summary0_def position0_def)
  have b3: "map_of row_bad_ticket ''Ticket'' = Some (StrV ''abc'')" by (simp add: row_bad_ticket_def)
  have b4: "int_of (StrV ''abc'') = Inl ValueError" by (simp add: int_of_def parse_defs)
  have e1: "map_of entry_bad_ticket ''position_ticket'' = Some ''12x''"
    by (simp add: entry_bad_ticket_def)
  have e2: "py_int ''12x'' = None" by (simp add: parse_defs)
  note T = ticket_is_integer_before_writer[of env0 blob0 world0 "''testcsvs/1003.csv''"
      "[row_bad_ticket]" "\<lparr>roster = roster0, feed = [entry_bad_ticket]\<rparr>" row_bad_ticket
      entry_bad_ticket "''12x''"]
  from T s0 have c1: "sent (process_blob env0 blob0 world0) = []" by simp
  from T b3 b4 s0 have b5: "sent (write_rows env0 ''testcsvs/1003.csv'' [row_bad_ticket] world0) = []"
    by simp
  from T e1 e2 have e3: "rss_trades (snd (process_account env0
        \<lparr>roster = roster0, feed = [entry_bad_ticket]\<rparr> world0)) = rss_trades world0"
    by simp
  from c1 write_ready_rows c2 sent_account0 r2 b3 b4 b5 e1 e2 e3 show ?thesis by simp
qed


section \<open>Numeric fields\<close>









lemma world_after_single_failure:
  assumes "\<not> hasattr item ''account_balance''" and "hasattr item ''position_ticket''"
      and "position env0 item = Inl e"
  shows "process_account env0 \<lparr>roster = roster0, feed = [item]\<rparr> world0
       = (None, world0\<lparr>logged := [ErrorFor (StrV ''acct1'') e], acquired := 1\<rparr>)"
proof -
  have h: "header (roster \<lparr>roster = roster0, feed = [item]\<rparr>) = Inr ctx0"
    using header_roster0 by simp
  have "process_account env0 \<lparr>roster = roster0, feed = [item]\<rparr> world0
       = (None, logging (ErrorFor (get roster0 ''username'') e)
                  (world0\<lparr>acquired := acquired world0 + 1\<rparr>))"
    using process_account_single_failure[OF h env0_db(1) env0_db(2) _ assms, of world0]
    by simp
  moreover have "logging (ErrorFor (get roster0 ''username'') e)
                  (world0\<lparr>acquired := acquired world0 + 1\<rparr>)
       = world0\<lparr>logged := [ErrorFor (StrV ''acct1'') e], acquired := 1\<rparr>"
    by (simp add: logging_def world0_def get_def roster0_def)
  ultimately show ?thesis by simp
qed





section \<open>The trade statement of the RSS pipeline\<close>

lemma flush_raises:
  "trades L \<noteq> [] \<Longrightarrow> flush E L = (Some ProgrammingError, L\<lparr>handed := handed L @ trades L\<rparr>)"
  by (cases "trades L")
     (simp_all add: flush_def Let_def execute_def bnd_def trades_statement_malformed)

lemma flush_txn: "flush E L = (None, L') \<Longrightarrow> txn L' = txn L"
  by (cases "trades L")
     (auto simp: flush_def Let_def execute_def bnd_def trades_statement_malformed)

lemma step_txn: "step E ctx item L = (None, L') \<Longrightarrow> txn L' = txn L"
  by (auto simp: step_def Let_def split: sum.splits if_splits prod.splits option.splits
           dest!: flush_txn)

lemma walk_txn: "walk E ctx items L = (None, L') \<Longrightarrow> txn L' = txn L"
proof (induction items arbitrary: L)
  case Nil
  then show ?case by simp
next
  case (Cons i items)
  show ?case
  proof (cases "step E ctx i L")
    case (Pair x L1)
    show ?thesis
    proof (cases x)
      case (Some e1)
      with Pair Cons.prems show ?thesis by simp
    next
      case None
      with Pair Cons.prems have "walk E ctx items L1 = (None, L')" by simp
      from Cons.IH[OF this] step_txn[of E ctx i L L1] Pair None show ?thesis by simp
    qed
  qed
qed

lemma final_batch_txn: "final_batch E (None, L) = (None, L') \<Longrightarrow> txn L' = txn L"
  by (auto simp: final_batch_def split: if_splits dest: flush_txn)

lemma rss_trades_never_written: "rss_trades (snd (process_account E a w)) = rss_trades w"
proof (cases "header (roster a)")
  case (Inl e)
  then show ?thesis by (simp add: process_account_def)
next
  case (Inr ctx)
  obtain x L where wk: "walk E ctx (feed a) (start (rss_trades w)) = (x, L)"
    by (cases "walk E ctx (feed a) (start (rss_trades w))")
  obtain y L' where fb: "final_batch E (x, L) = (y, L')" by (cases "final_batch E (x, L)")
  have "written (y, L') = Inr t \<Longrightarrow> t = rss_trades w" for t
  proof -
    assume "written (y, L') = Inr t"
    then have y: "y = None" and t: "t = txn L'"
      by (auto simp: written_def split: option.splits)
    with fb have x: "x = None" by (cases x) (simp_all add: final_batch_def)
    from final_batch_txn[OF fb[unfolded x y]] walk_txn[OF wk[unfolded x]] t
    show "t = rss_trades w" by (simp add: start_def)
  qed
  then show ?thesis
    using Inr wk fb by (simp add: process_account_def rss_trades_run_account split: sum.splits)
qed

lemma single_position_unit:
  assumes "header (roster a) = Inr ctx" and "connects E" and "\<not> rejects E ctx"
      and "feed a = [item]" and "\<not> hasattr item ''account_balance''"
      and "hasattr item ''position_ticket''" and "position E item = Inr p"
  shows "process_account E a w
           = (None, logging (ErrorFor (get (roster a) ''username'') ProgrammingError)
                      (w\<lparr>acquired := acquired w + 1,
                         sent := sent w @ [trade_tuple ctx (replicate 5 NoneV) p]\<rparr>))"
  using assms
  by (simp add: process_account_def run_account_def final_batch_def step_def read_summary_def
        start_def Let_def logging_def execute_META flush_raises)

text \<open>
  Claim C2 at a failing input. The statement the RSS pipeline sends is
  \<open>TRADES_UPSERT\<close> with its one group \<open>(%s)\<close> replaced by thirty-one such groups,
  and its SET list ends in a comma: the store refuses it. The table below holds a row for
  ticket 7 with an open price of 1.25; the unit reads a position with ticket 7 and an open
  price of 0, hands its tuple to \<open>executemany\<close>, which raises, and ends with an error:
  the stored row keeps its open price, a mutable field that the conflict was to overwrite.
  No unit ever changes the table.
\<close>

theorem rss_trade_upsert_never_executes:
  "values_groups (replace_values 31 TRADES_UPSERT) = replicate 31 1
   \<and> trailing_comma (replace_values 31 TRADES_UPSERT)
   \<and> \<not> parses (replace_values 31 TRADES_UPSERT)
   \<and> rss_trades world_stored (IntV 7) = Some stored_row7
   \<and> stored_row7 ''open_price'' = FloatV (Fin (5 / 4))
   \<and> ''open_price'' \<in> set (set_cols TRADES_UPSERT)
   \<and> position env0 entry0 = Inr position0
   \<and> bind_params (into_cols TRADES_UPSERT) (trade_tuple ctx0 (replicate 5 NoneV) position0) ''ticket''
       = IntV 7
   \<and> bind_params (into_cols TRADES_UPSERT) (trade_tuple ctx0 (replicate 5 NoneV) position0) ''open_price''
       = FloatV (Fin 0)
   \<and> executemany (rejects env0) (replace_values 31 TRADES_UPSERT)
       [trade_tuple ctx0 (replicate 5 NoneV) position0] (rss_trades world_stored)
       = Inl ProgrammingError
   \<and> process_account env0 \<lparr>roster = roster0, feed = [entry0]\<rparr> world_stored
       = (None, world_stored\<lparr>logged := [ErrorFor (StrV ''acct1'') ProgrammingError],
                              acquired := 1,
                              sent := [trade_tuple ctx0 (replicate 5 NoneV) position0]\<rparr>)
   \<and> rss_trades (snd (process_account env0 \<lparr>roster = roster0, feed = [entry0]\<rparr> world_stored)) (IntV 7)
       = Some stored_row7
   \<and> rss_trades (snd (process_account E a w)) = rss_trades w"
proof -
  have s: "rss_trades world_stored (IntV 7) = Some stored_row7"
    "stored_row7 ''open_price'' = FloatV (Fin (5 / 4))"
    "''open_price'' \<in> set (set_cols TRADES_UPSERT)"
    by (simp_all add: world_stored_def stored_row7_def TRADES_UPSERT_def)
  have b: "bind_params (into_cols TRADES_UPSERT) (trade_tuple ctx0 (replicate 5 NoneV) position0) ''ticket''
       = IntV 7"
    "bind_params (into_cols TRADES_UPSERT) (trade_tuple ctx0 (replicate 5 NoneV) position0) ''open_price''
       = FloatV (Fin 0)"
    by (simp_all add: bind_params_def TRADES_UPSERT_def trade_tuple_def ctx0_def position0_def
          eval_nat_numeral)
  have e: "executemany (rejects env0) (replace_values 31 TRADES_UPSERT)
       [trade_tuple ctx0 (replicate 5 NoneV) position0] (rss_trades world_stored)
       = Inl ProgrammingError"
    by (simp add: execute_def bnd_def trades_statement_malformed)
  have h: "header (roster \<lparr>roster = roster0, feed = [entry0]\<rparr>) = Inr ctx0"
    using header_roster0 by simp
  have c: "\<not> hasattr entry0 ''account_balance''" "hasattr entry0 ''position_ticket''"
    by (simp_all add: hasattr_def entry0_def)
  have "process_account env0 \<lparr>roster = roster0, feed = [entry0]\<rparr> world_stored
       = (None, logging (ErrorFor (get roster0 ''username'') ProgrammingError)
                  (world_stored\<lparr>acquired := acquired world_stored + 1,
                     sent := sent world_stored @ [trade_tuple ctx0 (replicate 5 NoneV) position0]\<rparr>))"
    using single_position_unit[OF h env0_db(1) env0_db(2) _ c position_entry0, of world_stored]
    by simp
  moreover have "logging (ErrorFor (get roster0 ''username'') ProgrammingError)
                  (world_stored\<lparr>acquired := acquired world_stored + 1,
                     sent := sent world_stored @ [trade_tuple ctx0 (replicate 5 NoneV) position0]\<rparr>)
       = world_stored\<lparr>logged := [ErrorFor (StrV ''acct1'') ProgrammingError], acquired := 1,
                       sent := [trade_tuple ctx0 (replicate 5 NoneV) position0]\<rparr>"
    by (simp add: logging_def world_stored_def world0_def get_def roster0_def)
  ultimately have p: "process_account env0 \<lparr>roster = roster0, feed = [entry0]\<rparr> world_stored
       = (None, world_stored\<lparr>logged := [ErrorFor (StrV ''acct1'') ProgrammingError],
                              acquired := 1,
                              sent := [trade_tuple ctx0 (replicate 5 NoneV) position0]\<rparr>)"
    by simp
  have r: "rss_trades (snd (process_account env0 \<lparr>roster = roster0, feed = [entry0]\<rparr> world_stored)) (IntV 7)
       = Some stored_row7"
    by (simp add: p s)
  from trades_statement_as_sent(1,2) trades_statement_malformed[of 31] s position_entry0 b e p r
    rss_trades_never_written[of E a w]
  show ?thesis by simp
qed


section \<open>Exceptions and the connection\<close>

lemma header_roster_bad_pct: "header roster_bad_pct = Inl ValueError"
  by (simp add: header_def roster_bad_pct_def getitem_def get_def to_pct_def isna_def
        strip_pct_def float_of_def bnd_def parse_defs)

lemma position_entry_bad_ticket: "position env0 entry_bad_ticket = Inl ValueError"
  by (simp add: rss_defs parse_defs env0_def entry_bad_ticket_def)

lemma world_after_account_quiet:
  "process_account env0 account_quiet world0
     = (None, world0\<lparr>logged := [Upserted (StrV ''acct1'') 0], acquired := 1, released := 1,
                      account_metadata := upsert META_UPSERT ctx0 (\<lambda>k. None)\<rparr>)"
proof -
  have h: "header (roster account_quiet) = Inr ctx0"
    using header_roster0 by (simp add: account_quiet_def)
  have s: "read_summary summary_entry (replicate 5 NoneV) = Inr summary0"
    using summary_of_summary_entry by (simp add: read_summary_def hasattr_def summary_entry_def)
  have n: "\<not> hasattr summary_entry ''position_ticket''"
    by (simp add: hasattr_def summary_entry_def)
  have w: "walk env0 ctx0 (feed account_quiet) (start (rss_trades world0))
      = (None, \<lparr>summary = summary0, trades = [], txn = rss_trades world0, handed = []\<rparr>)"
    by (simp add: account_quiet_def start_def step_def Let_def s n)
  show ?thesis
    using h w env0_db
    by (simp add: process_account_def run_account_def Let_def final_batch_def logging_def
          execute_META world0_def account_quiet_def get_def roster0_def)
qed

lemma world_after_account0:
  "process_account env0 account0 world0
     = (None, world0\<lparr>logged := [ErrorFor (StrV ''acct1'') ProgrammingError], acquired := 1,
                      sent := [trade_tuple ctx0 summary0 position0,
                               trade_tuple ctx0 summary0 position1]\<rparr>)"
proof -
  have h: "header (roster account0) = Inr ctx0"
    using header_roster0 by (simp add: account0_def)
  show ?thesis
    using h walk_account0[of "rss_trades world0"] env0_db
    by (simp add: process_account_def run_account_def Let_def final_batch_def logging_def
          execute_META flush_raises world0_def account0_def get_def roster0_def)
qed

text \<open>
  Claim C3 at a failing input. The roster row below holds the text \<open>abc\<close> in its
  trade win column. \<open>to_pct\<close> is called before the \<open>try\<close> block, so the
  \<open>ValueError\<close> of \<open>float\<close> leaves \<open>process_account\<close>: nothing is logged for
  the unit and no failed outcome is recorded. The run goes on with the next unit.
\<close>

theorem percent_error_escapes_unlogged:
  "get roster_bad_pct ''trade win'' = StrV ''abc''
   \<and> to_pct (StrV ''abc'') = Inl ValueError
   \<and> process_account env0 \<lparr>roster = roster_bad_pct, feed = [entry0]\<rparr> world0 = (Some ValueError, world0)
   \<and> logged (main_rss env0 [\<lparr>roster = roster_bad_pct, feed = [entry0]\<rparr>, account_quiet] world0)
       = [Upserted (StrV ''acct1'') 0]"
proof -
  have a: "get roster_bad_pct ''trade win'' = StrV ''abc''"
    by (simp add: get_def roster_bad_pct_def)
  have b: "to_pct (StrV ''abc'') = Inl ValueError"
    by (simp add: to_pct_def isna_def strip_pct_def float_of_def bnd_def parse_defs)
  have c: "process_account env0 \<lparr>roster = roster_bad_pct, feed = [entry0]\<rparr> world0
       = (Some ValueError, world0)"
    using header_roster_bad_pct by (simp add: process_account_def)
  from a b c world_after_account_quiet show ?thesis by (simp add: main_rss_def)
qed

text \<open>
  Claim C9 at a failing input. The ticket text of the entry below is not an integer: the
  unit has opened its connection when \<open>int\<close> raises, the handler only logs, and the
  connection is never closed. The same holds of a unit whose trade statement the store
  refuses. A unit that succeeds closes the one it opened.
\<close>

theorem connection_not_released_on_failure:
  "process_account env0 \<lparr>roster = roster0, feed = [entry_bad_ticket]\<rparr> world0
     = (None, world0\<lparr>logged := [ErrorFor (StrV ''acct1'') ValueError], acquired := 1\<rparr>)
   \<and> acquired (snd (process_account env0 \<lparr>roster = roster0, feed = [entry_bad_ticket]\<rparr> world0)) = 1
   \<and> released (snd (process_account env0 \<lparr>roster = roster0, feed = [entry_bad_ticket]\<rparr> world0)) = 0
   \<and> logged (snd (process_account env0 account0 world0)) = [ErrorFor (StrV ''acct1'') ProgrammingError]
   \<and> acquired (snd (process_account env0 account0 world0)) = 1
   \<and> released (snd (process_account env0 account0 world0)) = 0
   \<and> logged (snd (process_account env0 account_quiet world0)) = [Upserted (StrV ''acct1'') 0]
   \<and> acquired (snd (process_account env0 account_quiet world0)) = 1
   \<and> released (snd (process_account env0 account_quiet world0)) = 1"
proof -
  have c: "\<not> hasattr entry_bad_ticket ''account_balance''"
    "hasattr entry_bad_ticket ''position_ticket''"
    by (simp_all add: hasattr_def entry_bad_ticket_def)
  from world_after_single_failure[OF c position_entry_bad_ticket] world_after_account0
    world_after_account_quiet
  show ?thesis by (simp add: world0_def)
qed

end
